theory Spec2Isabelle
  imports Complex_Main "HOL-Library.Sublist" "HOL-Library.Multiset"
begin

section \<open>The capability and policy enforcement engine of sbos_server_shadow.py\<close>

text \<open>
  The server keeps its state in module-level dictionaries and in five SQLite tables.
  The model passes that state explicitly: one record holds the dictionaries and the
  tables (a table is the list of its rows in insertion order), every operation takes
  the record and returns the updated one together with its outcome. A raised
  exception is the \<open>Inl\<close> branch of a sum; the state returned with it carries the
  effects that happened before the raise, as in Python.

  A setpoint value is a Python float that arrives in a JSON body, so it is a finite
  number, an infinity or a NaN: the type \<open>pyfloat\<close>. Arithmetic on finite values
  overflows to an infinity as the float does; the rounding of finite results is not
  modelled. Configuration numbers and time stamps are reals. The semantic graph, the
  template engine and Python's number formatting are collaborators of the code that are
  not part of it: they are the fields of the record \<open>env\<close>. All wall-clock reads of one
  request are the single reading \<open>now\<close>.
\<close>

subsection \<open>Errors\<close>

datatype error =
    HTTPException nat string
  | KeyError string
  | OverflowError string
  | ValueError string

subsection \<open>Floats\<close>

datatype pyfloat = Finite real | PosInf | NegInf | NaN

text \<open>A finite result at or beyond \<open>2^1024 - 2^970\<close> in magnitude becomes an infinity.\<close>

definition overflow_threshold :: real where
  "overflow_threshold = 2 ^ 1024 - 2 ^ 970"

definition fl :: "real \<Rightarrow> pyfloat" where
  "fl x = (if overflow_threshold \<le> x then PosInf
           else if x \<le> - overflow_threshold then NegInf
           else Finite x)"

definition inf_sign :: "real \<Rightarrow> pyfloat" where
  "inf_sign a = (if 0 < a then PosInf else if a < 0 then NegInf else NaN)"

fun f_lt :: "pyfloat \<Rightarrow> pyfloat \<Rightarrow> bool" where
  "f_lt NaN y = False"
| "f_lt x NaN = False"
| "f_lt (Finite a) (Finite b) = (a < b)"
| "f_lt (Finite a) PosInf = True"
| "f_lt (Finite a) NegInf = False"
| "f_lt PosInf y = False"
| "f_lt NegInf NegInf = False"
| "f_lt NegInf y = True"

fun f_sub :: "pyfloat \<Rightarrow> pyfloat \<Rightarrow> pyfloat" where
  "f_sub NaN y = NaN"
| "f_sub x NaN = NaN"
| "f_sub (Finite a) (Finite b) = fl (a - b)"
| "f_sub (Finite a) PosInf = NegInf"
| "f_sub (Finite a) NegInf = PosInf"
| "f_sub PosInf PosInf = NaN"
| "f_sub PosInf y = PosInf"
| "f_sub NegInf NegInf = NaN"
| "f_sub NegInf y = NegInf"

fun f_mul :: "pyfloat \<Rightarrow> pyfloat \<Rightarrow> pyfloat" where
  "f_mul NaN y = NaN"
| "f_mul x NaN = NaN"
| "f_mul (Finite a) (Finite b) = fl (a * b)"
| "f_mul (Finite a) PosInf = inf_sign a"
| "f_mul (Finite a) NegInf = inf_sign (- a)"
| "f_mul PosInf (Finite b) = inf_sign b"
| "f_mul NegInf (Finite b) = inf_sign (- b)"
| "f_mul PosInf PosInf = PosInf"
| "f_mul PosInf NegInf = NegInf"
| "f_mul NegInf PosInf = NegInf"
| "f_mul NegInf NegInf = PosInf"

fun f_abs :: "pyfloat \<Rightarrow> pyfloat" where
  "f_abs (Finite a) = Finite \<bar>a\<bar>"
| "f_abs PosInf = PosInf"
| "f_abs NegInf = PosInf"
| "f_abs NaN = NaN"

text \<open>Python's \<open>int\<close> of a float truncates towards zero and raises on an infinity and on
  a NaN.\<close>

definition int_trunc :: "real \<Rightarrow> int" where
  "int_trunc x = (if x < 0 then \<lceil>x\<rceil> else \<lfloor>x\<rfloor>)"

fun py_int :: "pyfloat \<Rightarrow> error + int" where
  "py_int (Finite x) = Inr (int_trunc x)"
| "py_int PosInf = Inl (OverflowError ''cannot convert float infinity to integer'')"
| "py_int NegInf = Inl (OverflowError ''cannot convert float infinity to integer'')"
| "py_int NaN = Inl (ValueError ''cannot convert float NaN to integer'')"

subsection \<open>Collaborators\<close>

record env =
  query_iris :: "string \<Rightarrow> string list"
  class_of_iri :: "string \<Rightarrow> string option"
  typed_label :: "string \<Rightarrow> string \<Rightarrow> bool"
  render :: "string \<Rightarrow> (string \<rightharpoonup> string) \<Rightarrow> string"
  str_num :: "real \<Rightarrow> string"

subsection \<open>Data model\<close>

record Manifest =
  app_id :: string
  profile :: string
  args :: "string \<rightharpoonup> string"
  delegation :: string
  write_rate_limit_per_min :: int
  permissions :: "string \<rightharpoonup> bool"
  user :: string

record caps =
  cap_read :: "string list"
  cap_write :: "string list"

record bucket =
  limit :: int
  tokens :: int
  win :: int

record app_instance =
  inst_manifest :: Manifest
  inst_pid :: nat
  inst_key :: string
  inst_caps :: caps
  inst_user :: string
  inst_rate :: "bucket option"

record WriteReq =
  point_label :: string
  req_value :: pyfloat
  prev_value :: "pyfloat option"

datatype response = WriteOk string pyfloat

text \<open>Rows of the tables \<open>validators\<close> and \<open>shadow_validators\<close>.\<close>

record vrow =
  resource_class :: string
  position :: int
  vtype :: string

text \<open>Rows of \<open>txlog\<close>, \<open>shadowlog\<close> and \<open>timeseries\<close> (the autoincrement id is the
  index in the list).\<close>

record txrow =
  tx_ts :: real
  tx_actor :: string
  tx_app_id :: string
  tx_user_id :: string
  tx_action :: string
  tx_point_iri :: string
  tx_point_label :: string
  tx_value :: "pyfloat option"
  tx_decision :: string
  tx_reason :: string

record shadowrow =
  sh_ts :: real
  sh_app_id :: string
  sh_user_id :: string
  sh_point_iri :: string
  sh_point_label :: string
  sh_value :: pyfloat
  sh_cls :: string
  sh_vtype :: string
  sh_reason :: string

record tsrow =
  ts_ts :: real
  ts_point_label :: string
  ts_value :: pyfloat

text \<open>One entry of \<open>POLICY["guards"]\<close> is a dictionary from key to number, with the keys
  it happens to have; then one entry of \<open>PROFILES["profiles"]\<close> (each declared argument
  with its optional \<open>type\<close>) and one entry of \<open>USERS["users"]\<close>.\<close>

type_synonym guard = "(string \<times> real) list"

record profile_def =
  pf_args :: "(string \<times> string option) list"
  pf_sparql :: string

record user_def =
  sparql_read :: "string option"
  sparql_write :: "string option"

record state =
  APPS :: "string \<rightharpoonup> app_instance"
  APP_KEYS :: "string \<rightharpoonup> string"
  STATE :: "string \<rightharpoonup> pyfloat"
  LABEL2IRI :: "string \<rightharpoonup> string"
  PROFILES :: "string \<rightharpoonup> profile_def"
  USERS :: "string \<rightharpoonup> user_def"
  guards :: "(string \<rightharpoonup> guard) option"
  constraints :: "string \<rightharpoonup> real"
  validators :: "vrow list"
  shadow_validators :: "vrow list"
  txlog :: "txrow list"
  shadowlog :: "shadowrow list"
  timeseries :: "tsrow list"

subsection \<open>Permission manager\<close>

definition quote_chr :: string where
  "quote_chr = [CHR 0x27]"

text \<open>\<open>require_typed_label\<close> raises when the graph has no node of that type and label.\<close>

definition require_typed_label :: "env \<Rightarrow> string \<Rightarrow> string \<Rightarrow> error + unit" where
  "require_typed_label E label brick_type_qname =
     (if typed_label E label brick_type_qname then Inr ()
      else Inl (HTTPException 400
             (''Typed argument check failed: label '' @ quote_chr @ label @ quote_chr
                @ '' is not a '' @ brick_type_qname)))"

fun check_args :: "env \<Rightarrow> (string \<rightharpoonup> string) \<Rightarrow> (string \<times> string option) list \<Rightarrow> error + unit" where
  "check_args E a [] = Inr ()"
| "check_args E a ((arg_name, meta) # rest) =
     (case (a arg_name, meta) of
        (Some lbl, Some ty) \<Rightarrow>
          (case require_typed_label E lbl ty of
             Inl e \<Rightarrow> Inl e
           | Inr _ \<Rightarrow> check_args E a rest)
      | _ \<Rightarrow> check_args E a rest)"

definition render_profile :: "env \<Rightarrow> state \<Rightarrow> string \<Rightarrow> (string \<rightharpoonup> string) \<Rightarrow> error + string" where
  "render_profile E s p a =
     (case PROFILES s p of
        None \<Rightarrow> Inl (KeyError p)
      | Some pf \<Rightarrow>
          (case check_args E a (pf_args pf) of
             Inl e \<Rightarrow> Inl e
           | Inr _ \<Rightarrow> Inr (render E (pf_sparql pf) a)))"

datatype op = Read | Write

definition user_caps :: "env \<Rightarrow> state \<Rightarrow> string \<Rightarrow> op \<Rightarrow> string list" where
  "user_caps E s u opr =
     (case USERS s u of
        None \<Rightarrow> []
      | Some ud \<Rightarrow>
          (case (case opr of Read \<Rightarrow> sparql_read ud | Write \<Rightarrow> sparql_write ud) of
             None \<Rightarrow> []
           | Some q \<Rightarrow> query_iris E q))"

definition compute_caps :: "env \<Rightarrow> state \<Rightarrow> Manifest \<Rightarrow> error + caps" where
  "compute_caps E s man =
     (case render_profile E s (profile man) (args man) of
        Inl e \<Rightarrow> Inl e
      | Inr q \<Rightarrow>
          (let app_read = query_iris E q;
               app_write = (if (case permissions man ''write'' of None \<Rightarrow> False | Some b \<Rightarrow> b)
                            then app_read else [])
           in if delegation man = ''augmentation''
              then Inr \<lparr>cap_read = app_read, cap_write = app_write\<rparr>
              else
                (let uread = user_caps E s (user man) Read;
                     uwrite = user_caps E s (user man) Write
                 in Inr \<lparr>cap_read = filter (\<lambda>i. i \<in> set uread) app_read,
                         cap_write = filter (\<lambda>i. i \<in> set uwrite) app_write\<rparr>)))"

subsection \<open>Resource proxy and logs\<close>

definition log_tx ::
  "real \<Rightarrow> string \<Rightarrow> string \<Rightarrow> string \<Rightarrow> string \<Rightarrow> string \<Rightarrow> string \<Rightarrow> pyfloat option
     \<Rightarrow> string \<Rightarrow> string \<Rightarrow> state \<Rightarrow> state" where
  "log_tx now actor aid uid action iri label v decision reason s =
     s\<lparr>txlog := txlog s @
          [\<lparr>tx_ts = now, tx_actor = actor, tx_app_id = aid, tx_user_id = uid,
            tx_action = action, tx_point_iri = iri, tx_point_label = label,
            tx_value = v, tx_decision = decision, tx_reason = reason\<rparr>]\<rparr>"

definition log_timeseries :: "real \<Rightarrow> string \<Rightarrow> pyfloat \<Rightarrow> state \<Rightarrow> state" where
  "log_timeseries now label v s =
     s\<lparr>timeseries := timeseries s @ [\<lparr>ts_ts = now, ts_point_label = label, ts_value = v\<rparr>]\<rparr>"

definition log_shadow ::
  "real \<Rightarrow> string \<Rightarrow> string \<Rightarrow> string \<Rightarrow> string \<Rightarrow> pyfloat \<Rightarrow> string \<Rightarrow> string \<Rightarrow> string
     \<Rightarrow> shadowrow" where
  "log_shadow now aid uid iri label v cls vt reason =
     \<lparr>sh_ts = now, sh_app_id = aid, sh_user_id = uid, sh_point_iri = iri,
      sh_point_label = label, sh_value = v, sh_cls = cls, sh_vtype = vt,
      sh_reason = reason\<rparr>"

definition proxy_read :: "state \<Rightarrow> string \<Rightarrow> pyfloat option" where
  "proxy_read s label = STATE s label"

definition proxy_write :: "real \<Rightarrow> string \<Rightarrow> pyfloat \<Rightarrow> state \<Rightarrow> state" where
  "proxy_write now label v s = log_timeseries now label v (s\<lparr>STATE := (STATE s)(label \<mapsto> v)\<rparr>)"

subsection \<open>Validator registry\<close>

text \<open>\<open>cls.split("#")[-1] if "#" in cls else cls\<close>: what follows the last \<open>#\<close>.\<close>

definition local_name :: "string \<Rightarrow> string" where
  "local_name cls =
     (if CHR ''#'' \<in> set cls then rev (takeWhile (\<lambda>c. c \<noteq> CHR ''#'') (rev cls)) else cls)"

text \<open>\<open>SELECT vtype FROM t WHERE resource_class=? ORDER BY position ASC\<close>. Rows of equal
  position come out in insertion order.\<close>

definition select_vtypes :: "vrow list \<Rightarrow> string \<Rightarrow> string list" where
  "select_vtypes t local =
     map vtype (sort_key position (filter (\<lambda>r. resource_class r = local) t))"

definition get_validators_for_class :: "state \<Rightarrow> string \<Rightarrow> string list" where
  "get_validators_for_class s cls = select_vtypes (validators s) (local_name cls)"

definition get_shadow_validators_for_class :: "state \<Rightarrow> string \<Rightarrow> string list" where
  "get_shadow_validators_for_class s cls = select_vtypes (shadow_validators s) (local_name cls)"

text \<open>The en dash of the reason strings, in UTF-8.\<close>

definition en_dash :: string where
  "en_dash = [CHR 0xE2, CHR 0x80, CHR 0x93]"

text \<open>A validator returns its verdict and reason, or raises. \<open>POLICY["guards"]\<close> raises
  without a guards section, \<open>g[key]\<close> without that key; an empty guard is falsy.\<close>

type_synonym validator =
  "env \<Rightarrow> state \<Rightarrow> string \<Rightarrow> string \<Rightarrow> pyfloat \<Rightarrow> pyfloat option \<Rightarrow> error + bool \<times> string"

definition g_item :: "guard \<Rightarrow> string \<Rightarrow> error + real" where
  "g_item g k = (case map_of g k of None \<Rightarrow> Inl (KeyError k) | Some x \<Rightarrow> Inr x)"

definition v_range :: validator where
  "v_range E s cls label v prev =
     (case guards s of
        None \<Rightarrow> Inl (KeyError ''guards'')
      | Some gs \<Rightarrow>
          (case gs (local_name cls) of
             None \<Rightarrow> Inr (True, ''no-range'')
           | Some g \<Rightarrow>
               if g = [] then Inr (True, ''no-range'')
               else
                 (case g_item g ''min'' of
                    Inl e \<Rightarrow> Inl e
                  | Inr mn \<Rightarrow>
                      (case g_item g ''max'' of
                         Inl e \<Rightarrow> Inl e
                       | Inr mx \<Rightarrow>
                           if f_lt v (Finite mn) \<or> f_lt (Finite mx) v
                           then Inr (False, ''range '' @ str_num E mn @ en_dash @ str_num E mx)
                           else Inr (True, ''ok'')))))"

definition v_rate :: validator where
  "v_rate E s cls label v prev =
     (case guards s of
        None \<Rightarrow> Inl (KeyError ''guards'')
      | Some gs \<Rightarrow>
          (case (gs (local_name cls), prev) of
             (Some g, Some p) \<Rightarrow>
               if g = [] then Inr (True, ''no-rate'')
               else
                 (case g_item g ''max_step'' of
                    Inl e \<Rightarrow> Inl e
                  | Inr st \<Rightarrow>
                      if f_lt (Finite st) (f_abs (f_sub v p))
                      then Inr (False, ''step>'' @ str_num E st)
                      else Inr (True, ''ok''))
           | _ \<Rightarrow> Inr (True, ''no-rate'')))"

text \<open>\<open>sub in label\<close> on strings is the substring test.\<close>

fun substr_in :: "string \<Rightarrow> string \<Rightarrow> bool" where
  "substr_in sub [] = (sub = [])"
| "substr_in sub (c # cs) = (prefix sub (c # cs) \<or> substr_in sub cs)"

definition c_get :: "state \<Rightarrow> string \<Rightarrow> real \<Rightarrow> real" where
  "c_get s k d = (case constraints s k of None \<Rightarrow> d | Some x \<Rightarrow> x)"

definition v_energy_budget :: validator where
  "v_energy_budget E s cls label v prev =
     (let watts = c_get s ''energy_budget_watts'' 5000;
          per_deg = c_get s ''energy_per_degree_watts'' 150
      in if substr_in ''Cool_SP'' label \<and> f_lt v (Finite (c_get s ''min_cool_setpoint'' 20))
         then (case py_int (f_mul (f_sub (Finite 20) v) (Finite per_deg)) of
                 Inl e \<Rightarrow> Inl e
               | Inr need \<Rightarrow>
                   if real_of_int need > watts then Inr (False, ''energy_budget'')
                   else Inr (True, ''ok''))
         else Inr (True, ''ok''))"

definition v_comfort_band :: validator where
  "v_comfort_band E s cls label v prev =
     (let lo = c_get s ''comfort_min'' 21;
          hi = c_get s ''comfort_max'' 24
      in if f_lt v (Finite lo) \<or> f_lt (Finite hi) v
         then Inr (False, ''comfort_band '' @ str_num E lo @ en_dash @ str_num E hi)
         else Inr (True, ''ok''))"

definition VALIDATOR_FUNS :: "string \<Rightarrow> validator option" where
  "VALIDATOR_FUNS vname =
     (if vname = ''range'' then Some v_range
      else if vname = ''rate'' then Some v_rate
      else if vname = ''energy_budget'' then Some v_energy_budget
      else if vname = ''comfort_band'' then Some v_comfort_band
      else None)"

subsection \<open>App steward: the rate gate\<close>

definition token_bucket_ok :: "real \<Rightarrow> app_instance \<Rightarrow> bool \<times> app_instance" where
  "token_bucket_ok now inst =
     (let w = \<lfloor>now / 60\<rfloor>;
          b0 = (case inst_rate inst of
                  None \<Rightarrow> \<lparr>limit = write_rate_limit_per_min (inst_manifest inst),
                            tokens = 0, win = w\<rparr>
                | Some b \<Rightarrow> b);
          b1 = (if w \<noteq> win b0 then b0\<lparr>win := w, tokens := 0\<rparr> else b0)
      in if tokens b1 \<ge> limit b1
         then (False, inst\<lparr>inst_rate := Some b1\<rparr>)
         else (True, inst\<lparr>inst_rate := Some (b1\<lparr>tokens := tokens b1 + 1\<rparr>)\<rparr>))"

subsection \<open>Authentication\<close>

definition get_app_instance_from_key :: "state \<Rightarrow> string option \<Rightarrow> error + (string \<times> app_instance)" where
  "get_app_instance_from_key s app_key =
     (case app_key of
        None \<Rightarrow> Inl (HTTPException 401 ''Missing X-App-Key'')
      | Some k \<Rightarrow>
          if k = [] then Inl (HTTPException 401 ''Missing X-App-Key'')
          else
            (case APP_KEYS s k of
               None \<Rightarrow> Inl (HTTPException 403 ''Invalid X-App-Key'')
             | Some aid \<Rightarrow>
                 if aid = [] then Inl (HTTPException 403 ''Invalid X-App-Key'')
                 else
                   (case APPS s aid of
                      None \<Rightarrow> Inl (KeyError aid)
                    | Some inst \<Rightarrow> Inr (aid, inst))))"

subsection \<open>Promotion of shadow validators\<close>




subsection \<open>The write pipeline\<close>

text \<open>The endpoint \<open>write\<close> is \<open>write_endpoint\<close> here.\<close>

text \<open>The enforced loop: \<open>Inr None\<close> when every validator accepts, \<open>Inr (Some reason)\<close> at
  the first one that rejects, \<open>Inl\<close> when the registry has no such validator or the
  validator raises.\<close>

fun run_enforced ::
  "env \<Rightarrow> state \<Rightarrow> string \<Rightarrow> string \<Rightarrow> pyfloat \<Rightarrow> pyfloat option \<Rightarrow> string list
     \<Rightarrow> error + string option" where
  "run_enforced E s cls label v prev [] = Inr None"
| "run_enforced E s cls label v prev (vname # vs) =
     (case VALIDATOR_FUNS vname of
        None \<Rightarrow> Inl (KeyError vname)
      | Some f \<Rightarrow>
          (case f E s cls label v prev of
             Inl e \<Rightarrow> Inl e
           | Inr (ok, reason) \<Rightarrow>
               if \<not> ok then Inr (Some reason)
               else run_enforced E s cls label v prev vs))"

text \<open>The shadow loop: the rows it adds to \<open>shadowlog\<close>, in order, and the error that
  stopped it, if any.\<close>

fun run_shadow ::
  "env \<Rightarrow> state \<Rightarrow> real \<Rightarrow> string \<Rightarrow> string \<Rightarrow> string \<Rightarrow> string \<Rightarrow> string \<Rightarrow> pyfloat
     \<Rightarrow> pyfloat option \<Rightarrow> string list \<Rightarrow> error option \<times> shadowrow list" where
  "run_shadow E s now aid uid iri cls label v prev [] = (None, [])"
| "run_shadow E s now aid uid iri cls label v prev (vname # vs) =
     (case VALIDATOR_FUNS vname of
        None \<Rightarrow> (Some (KeyError vname), [])
      | Some f \<Rightarrow>
          (case f E s cls label v prev of
             Inl e \<Rightarrow> (Some e, [])
           | Inr (ok, reason) \<Rightarrow>
               (case run_shadow E s now aid uid iri cls label v prev vs of
                  (err, logged) \<Rightarrow>
                    (err, (if \<not> ok then [log_shadow now aid uid iri label v cls vname reason] else [])
                            @ logged))))"

definition write_endpoint :: "env \<Rightarrow> real \<Rightarrow> state \<Rightarrow> string option \<Rightarrow> WriteReq \<Rightarrow> (error + response) \<times> state" where
  "write_endpoint E now s x_app_key req =
     (case get_app_instance_from_key s x_app_key of
        Inl e \<Rightarrow> (Inl e, s)
      | Inr (aid, inst0) \<Rightarrow>
          (case token_bucket_ok now inst0 of
             (ok, inst) \<Rightarrow>
               (let s1 = s\<lparr>APPS := (APPS s)(aid \<mapsto> inst)\<rparr>;
                    label = point_label req;
                    v = req_value req
                in if \<not> ok then (Inl (HTTPException 429 ''Write rate limit exceeded''), s1)
                   else
                     (case LABEL2IRI s1 label of
                        None \<Rightarrow> (Inl (HTTPException 404 ''Unknown point''), s1)
                      | Some iri \<Rightarrow>
                          if iri = [] then (Inl (HTTPException 404 ''Unknown point''), s1)
                          else if iri \<notin> set (cap_write (inst_caps inst)) then
                            (Inl (HTTPException 403 ''No write capability''),
                             log_tx now ''app'' aid (inst_user inst) ''write'' iri label (Some v)
                               ''deny'' ''no-cap-write'' s1)
                          else
                            (let cls = (case class_of_iri E iri of None \<Rightarrow> [] | Some c \<Rightarrow> c);
                                 vlist = get_validators_for_class s1 cls
                             in if vlist = [] then
                                  (Inl (HTTPException 400 ''No validators configured''),
                                   log_tx now ''regulator'' aid (inst_user inst) ''write'' iri label
                                     (Some v) ''deny'' ''no-validators'' s1)
                                else
                                  (let prev = proxy_read s1 label
                                   in case run_enforced E s1 cls label v prev vlist of
                                        Inl e \<Rightarrow> (Inl e, s1)
                                      | Inr (Some reason) \<Rightarrow>
                                          (Inl (HTTPException 400 (''Guard blocked: '' @ reason)),
                                           log_tx now ''regulator'' aid (inst_user inst) ''write'' iri
                                             label (Some v) ''deny'' reason s1)
                                      | Inr None \<Rightarrow>
                                          (case run_shadow E s1 now aid (inst_user inst) iri cls label
                                                  v prev (get_shadow_validators_for_class s1 cls) of
                                             (err, logged) \<Rightarrow>
                                               (let s2 = s1\<lparr>shadowlog := shadowlog s1 @ logged\<rparr>
                                                in case err of
                                                     Some e \<Rightarrow> (Inl e, s2)
                                                   | None \<Rightarrow>
                                                       (Inr (WriteOk label v),
                                                        log_tx now ''proxy'' aid (inst_user inst)
                                                          ''write'' iri label (Some v) ''allow'' ''ok''
                                                          (proxy_write now label v s2))))))))))"

subsection \<open>Successive requests of one caller\<close>

text \<open>
  The endpoint called once per element of a list of (clock reading, request) pairs with
  the same key, each call on the state the previous one left; the outcomes in order.
\<close>

fun write_seq ::
  "env \<Rightarrow> state \<Rightarrow> string option \<Rightarrow> (real \<times> WriteReq) list \<Rightarrow> (error + response) list \<times> state" where
  "write_seq E s key [] = ([], s)"
| "write_seq E s key ((now, req) # rest) =
     (case write_endpoint E now s key req of
        (r, s1) \<Rightarrow> (case write_seq E s1 key rest of (rs, s2) \<Rightarrow> (r # rs, s2)))"

text \<open>
  The outcome of a request stopped by the rate gate.
\<close>

definition rate_limited :: "error + response" where
  "rate_limited = Inl (HTTPException 429 ''Write rate limit exceeded'')"

subsection \<open>Shadow findings\<close>

text \<open>
  A registered validator rejects the request: its evaluation returns \<open>False\<close> with a
  reason.
\<close>

definition rejects :: "env \<Rightarrow> state \<Rightarrow> string \<Rightarrow> string \<Rightarrow> pyfloat \<Rightarrow> pyfloat option \<Rightarrow> string \<Rightarrow> bool" where
  "rejects E s cls label v prev vname =
     (case VALIDATOR_FUNS vname of
        None \<Rightarrow> False
      | Some f \<Rightarrow> (case f E s cls label v prev of Inl e \<Rightarrow> False | Inr (ok, reason) \<Rightarrow> \<not> ok))"

section \<open>An example configuration\<close>

text \<open>
  One registered instance, one cooling setpoint it may write, the value table of
  the source, one enforced and one shadow validator; then variants of it: a chain
  \<open>[range, rate]\<close> stored out of order, a shadow chain of three, a shadow chain with a
  type tag the registry does not have, and an energy budget configuration.
\<close>

definition demo_env :: env where
  "demo_env =
     \<lparr>query_iris = (\<lambda>q. if q = ''Q_APP'' then [''urn:p1'', ''urn:p2'']
                         else if q = ''Q_USER'' then [''urn:p1''] else []),
      class_of_iri = (\<lambda>i. if i = ''urn:p1'' then Some ''brick#Cooling_Setpoint'' else None),
      typed_label = (\<lambda>l t. True),
      render = (\<lambda>tpl a. tpl),
      str_num = (\<lambda>x. ''n'')\<rparr>"

definition demo_manifest :: Manifest where
  "demo_manifest =
     \<lparr>app_id = ''comfort'', profile = ''zone'', args = Map.empty,
      delegation = ''delegated'', write_rate_limit_per_min = 2,
      permissions = [''write'' \<mapsto> True], user = ''alice''\<rparr>"

definition demo_instance :: app_instance where
  "demo_instance =
     \<lparr>inst_manifest = demo_manifest, inst_pid = 1, inst_key = ''key_a'',
      inst_caps = \<lparr>cap_read = [''urn:p1''], cap_write = [''urn:p1'']\<rparr>,
      inst_user = ''alice'',
      inst_rate = Some \<lparr>limit = 2, tokens = 0, win = 0\<rparr>\<rparr>"

definition demo_state :: state where
  "demo_state =
     \<lparr>APPS = [''a'' \<mapsto> demo_instance],
      APP_KEYS = [''key_a'' \<mapsto> ''a''],
      STATE = [''F1_ZoneA_Cool_SP'' \<mapsto> Finite 22, ''F1_ZoneA_Heat_SP'' \<mapsto> Finite 21,
               ''F2_ZoneB_Cool_SP'' \<mapsto> Finite 22, ''F2_ZoneB_Heat_SP'' \<mapsto> Finite 21],
      LABEL2IRI = [''F1_ZoneA_Cool_SP'' \<mapsto> ''urn:p1''],
      PROFILES = [''zone'' \<mapsto> \<lparr>pf_args = [], pf_sparql = ''Q_APP''\<rparr>],
      USERS = [''alice'' \<mapsto> \<lparr>sparql_read = Some ''Q_USER'', sparql_write = Some ''Q_USER''\<rparr>],
      guards = Some [''Cooling_Setpoint'' \<mapsto> [(''min'', 18), (''max'', 28), (''max_step'', 2)]],
      constraints = Map.empty,
      validators = [\<lparr>resource_class = ''Cooling_Setpoint'', position = 0, vtype = ''range''\<rparr>],
      shadow_validators =
        [\<lparr>resource_class = ''Cooling_Setpoint'', position = 0, vtype = ''comfort_band''\<rparr>],
      txlog = [], shadowlog = [], timeseries = []\<rparr>"

definition demo_req :: "real \<Rightarrow> WriteReq" where
  "demo_req v =
     \<lparr>point_label = ''F1_ZoneA_Cool_SP'', req_value = Finite v, prev_value = Some (Finite 24)\<rparr>"

definition demo_cls :: string where
  "demo_cls = ''brick#Cooling_Setpoint''"

definition demo_instance_1 :: app_instance where
  "demo_instance_1 = demo_instance\<lparr>inst_rate := Some \<lparr>limit = 2, tokens = 1, win = 0\<rparr>\<rparr>"

definition chain_state :: state where
  "chain_state =
     demo_state\<lparr>validators :=
       [\<lparr>resource_class = ''Cooling_Setpoint'', position = 1, vtype = ''rate''\<rparr>,
        \<lparr>resource_class = ''Cooling_Setpoint'', position = 0, vtype = ''range''\<rparr>,
        \<lparr>resource_class = ''Heating_Setpoint'', position = 0, vtype = ''energy_budget''\<rparr>]\<rparr>"

definition shadow_state :: state where
  "shadow_state =
     demo_state\<lparr>shadow_validators :=
       [\<lparr>resource_class = ''Cooling_Setpoint'', position = 0, vtype = ''comfort_band''\<rparr>,
        \<lparr>resource_class = ''Cooling_Setpoint'', position = 1, vtype = ''range''\<rparr>,
        \<lparr>resource_class = ''Cooling_Setpoint'', position = 2, vtype = ''rate''\<rparr>]\<rparr>"

definition typo_state :: state where
  "typo_state =
     demo_state\<lparr>shadow_validators :=
       [\<lparr>resource_class = ''Cooling_Setpoint'', position = 0, vtype = ''comfort_bands''\<rparr>]\<rparr>"

definition budget_state :: state where
  "budget_state =
     demo_state\<lparr>constraints :=
       [''min_cool_setpoint'' \<mapsto> 18, ''energy_per_degree_watts'' \<mapsto> 150,
        ''energy_budget_watts'' \<mapsto> 400]\<rparr>"

definition demo_attempts :: "(real \<times> WriteReq) list" where
  "demo_attempts = [(0, demo_req 23), (10, demo_req 30), (59, demo_req 23)]"

section \<open>Properties\<close>

subsection \<open>Floats in the examples\<close>

lemma fl_small: "\<bar>x\<bar> \<le> 1000000 \<Longrightarrow> fl x = Finite x"
proof -
  have "(1000000::real) < overflow_threshold"
    by (simp add: overflow_threshold_def)
  then show "\<bar>x\<bar> \<le> 1000000 \<Longrightarrow> fl x = Finite x"
    by (auto simp: fl_def)
qed

subsection \<open>Augmentation\<close>

lemma render_profile_USERS:
  "render_profile E (s\<lparr>USERS := u\<rparr>) p a = render_profile E s p a"
  by (simp add: render_profile_def)

text \<open>
  C1 (as amended). The code selects the first mode by the delegation string
  \<open>augmentation\<close>. For every manifest with that string, \<open>compute_caps\<close> returns the
  profile-derived set: the read set is the result of the profile query, the write set
  is the same list when the \<open>write\<close> permission is true and empty otherwise; an error of
  \<open>render_profile\<close> is passed on. The user table has no influence on the result.
\<close>

theorem compute_caps_augmentation:
  "delegation man = ''augmentation'' \<Longrightarrow>
     compute_caps E s man =
       (case render_profile E s (profile man) (args man) of
          Inl e \<Rightarrow> Inl e
        | Inr q \<Rightarrow>
            Inr \<lparr>cap_read = query_iris E q,
                 cap_write = (if permissions man ''write'' = Some True then query_iris E q else [])\<rparr>)
     \<and> compute_caps E (s\<lparr>USERS := u\<rparr>) man = compute_caps E s man"
  by (auto simp: compute_caps_def render_profile_USERS Let_def split: sum.splits option.splits)

text \<open>
  The same at a concrete manifest, with and without a user table.
\<close>

theorem compute_caps_augmentation_witness:
  "compute_caps demo_env demo_state (demo_manifest\<lparr>delegation := ''augmentation''\<rparr>) =
     Inr \<lparr>cap_read = [''urn:p1'', ''urn:p2''], cap_write = [''urn:p1'', ''urn:p2'']\<rparr>
   \<and> compute_caps demo_env (demo_state\<lparr>USERS := Map.empty\<rparr>)
         (demo_manifest\<lparr>delegation := ''augmentation''\<rparr>) =
       compute_caps demo_env demo_state (demo_manifest\<lparr>delegation := ''augmentation''\<rparr>)"
proof -
  have h: "delegation (demo_manifest\<lparr>delegation := ''augmentation''\<rparr>) = ''augmentation''"
    by simp
  show ?thesis
    using compute_caps_augmentation [OF h, of demo_env demo_state Map.empty]
    by (simp add: render_profile_def demo_state_def demo_manifest_def demo_env_def)
qed

text \<open>
  C1 as stated, with the delegation string \<open>augmented\<close>: the string is not the one the
  code tests, so the manifest is handled as a delegated one. With a profile query that
  yields two points and a user without stored queries, both sets come out empty.
\<close>

theorem compute_caps_augmented_counterexample:
  "render_profile demo_env (demo_state\<lparr>USERS := Map.empty\<rparr>) (profile demo_manifest) (args demo_manifest)
     = Inr ''Q_APP''
   \<and> query_iris demo_env ''Q_APP'' = [''urn:p1'', ''urn:p2'']
   \<and> compute_caps demo_env (demo_state\<lparr>USERS := Map.empty\<rparr>)
        (demo_manifest\<lparr>delegation := ''augmented''\<rparr>)
     = Inr \<lparr>cap_read = [], cap_write = []\<rparr>"
  by (simp add: compute_caps_def user_caps_def render_profile_def demo_state_def
        demo_manifest_def demo_env_def)

subsection \<open>Delegated capabilities\<close>

lemma user_caps_no_query:
  "(\<forall>ud. USERS s u = Some ud \<longrightarrow> sparql_write ud = None) \<Longrightarrow> user_caps E s u Write = []"
  "(\<forall>ud. USERS s u = Some ud \<longrightarrow> sparql_read ud = None) \<Longrightarrow> user_caps E s u Read = []"
  by (auto simp: user_caps_def split: option.splits)

lemma compute_caps_not_augmentation:
  assumes "delegation man \<noteq> ''augmentation''"
    and "render_profile E s (profile man) (args man) = Inr q"
  shows "compute_caps E s man =
           Inr \<lparr>cap_read = filter (\<lambda>i. i \<in> set (user_caps E s (user man) Read)) (query_iris E q),
                cap_write = filter (\<lambda>i. i \<in> set (user_caps E s (user man) Write))
                              (if permissions man ''write'' = Some True then query_iris E q else [])\<rparr>"
  using assms by (auto simp: compute_caps_def Let_def split: option.splits)

text \<open>
  C8. For every manifest with delegation \<open>delegated\<close> whose profile renders,
  \<open>compute_caps\<close> returns sets in which read is the profile query result intersected
  with the user's read set, and write is the write-eligible set (the query result when
  the \<open>write\<close> permission is true, else empty) intersected with the user's write set; a
  user without the stored query (or an unknown user) contributes the empty set.
\<close>

theorem compute_caps_delegated:
  assumes "delegation man = ''delegated''"
    and "render_profile E s (profile man) (args man) = Inr q"
  shows "\<exists>c. compute_caps E s man = Inr c
           \<and> set (cap_read c) = set (query_iris E q) \<inter> set (user_caps E s (user man) Read)
           \<and> set (cap_write c) =
               set (if permissions man ''write'' = Some True then query_iris E q else [])
               \<inter> set (user_caps E s (user man) Write)
           \<and> ((\<forall>ud. USERS s (user man) = Some ud \<longrightarrow> sparql_write ud = None) \<longrightarrow> cap_write c = [])
           \<and> ((\<forall>ud. USERS s (user man) = Some ud \<longrightarrow> sparql_read ud = None) \<longrightarrow> cap_read c = [])"
proof -
  from assms(1) have "delegation man \<noteq> ''augmentation''" by simp
  from compute_caps_not_augmentation [OF this assms(2)]
  show ?thesis
    by (auto simp: user_caps_no_query)
qed

text \<open>
  The same at a concrete manifest: once with a user whose queries yield one of the
  two points of the profile, once without any user.
\<close>

theorem compute_caps_delegated_witness:
  "compute_caps demo_env demo_state demo_manifest =
     Inr \<lparr>cap_read = [''urn:p1''], cap_write = [''urn:p1'']\<rparr>
   \<and> compute_caps demo_env (demo_state\<lparr>USERS := Map.empty\<rparr>) demo_manifest =
     Inr \<lparr>cap_read = [], cap_write = []\<rparr>"
proof -
  have d: "delegation demo_manifest = ''delegated''"
    by (simp add: demo_manifest_def)
  have r: "render_profile demo_env demo_state (profile demo_manifest) (args demo_manifest) = Inr ''Q_APP''"
    by (simp add: render_profile_def demo_state_def demo_manifest_def demo_env_def)
  have r': "render_profile demo_env (demo_state\<lparr>USERS := Map.empty\<rparr>) (profile demo_manifest)
              (args demo_manifest) = Inr ''Q_APP''"
    by (simp add: render_profile_def demo_state_def demo_manifest_def demo_env_def)
  from compute_caps_delegated [OF d r] compute_caps_delegated [OF d r']
  show ?thesis
    by (auto simp: user_caps_def demo_state_def demo_manifest_def demo_env_def
          compute_caps_def render_profile_def)
qed

subsection \<open>The energy budget validator\<close>

text \<open>
  C2, evaluated. With a configured minimum of 18, 150 watts per degree and a budget of
  400 watts, a cooling setpoint of 17 is one degree below the minimum: the estimate
  from the configured minimum is 150 watts, within the budget. The validator subtracts
  from the constant 20 instead, gets 450 watts and rejects.
\<close>

theorem v_energy_budget_fixed_minimum:
  "c_get budget_state ''min_cool_setpoint'' 20 = 18
   \<and> (18 - 17) * c_get budget_state ''energy_per_degree_watts'' 150 = 150
   \<and> c_get budget_state ''energy_budget_watts'' 5000 = 400
   \<and> v_energy_budget demo_env budget_state demo_cls ''F1_ZoneA_Cool_SP'' (Finite 17) (Some (Finite 22))
       = Inr (False, ''energy_budget'')"
  by (simp add: v_energy_budget_def c_get_def int_trunc_def budget_state_def fl_small)

subsection \<open>Promotion\<close>



lemma local_name_idem: "local_name (local_name c) = local_name c"
proof (cases "CHR ''#'' \<in> set c")
  case True
  have "CHR ''#'' \<notin> set (takeWhile (\<lambda>x. x \<noteq> CHR ''#'') (rev c))"
    by (auto dest: set_takeWhileD)
  with True show ?thesis by (simp add: local_name_def)
next
  case False
  then show ?thesis by (simp add: local_name_def)
qed












subsection \<open>Frame lemmas and the admitted request\<close>

text \<open>
  The validators read the guards and the constraints only, so the rate bucket
  written back before validation does not change their results.
\<close>

lemma VALIDATOR_FUNS_APPS:
  "VALIDATOR_FUNS n = Some f \<Longrightarrow> f E (s\<lparr>APPS := a\<rparr>) cls l v p = f E s cls l v p"
  by (auto simp: VALIDATOR_FUNS_def v_range_def v_rate_def v_energy_budget_def
        v_comfort_band_def c_get_def split: if_splits)

lemma run_enforced_APPS:
  "run_enforced E (s\<lparr>APPS := a\<rparr>) cls l v p vs = run_enforced E s cls l v p vs"
  by (induction vs) (auto simp: VALIDATOR_FUNS_APPS split: option.splits sum.splits prod.splits)

lemma run_shadow_APPS:
  "run_shadow E (s\<lparr>APPS := a\<rparr>) now aid uid iri cls l v p vs
     = run_shadow E s now aid uid iri cls l v p vs"
  by (induction vs) (auto simp: VALIDATOR_FUNS_APPS split: option.splits sum.splits prod.splits)

text \<open>
  The pipeline after authentication, rate gate, point resolution and capability check.
\<close>

lemma write_admitted:
  assumes "get_app_instance_from_key s key = Inr (aid, inst0)"
    and "token_bucket_ok now inst0 = (True, inst)"
    and "LABEL2IRI s (point_label req) = Some iri" and "iri \<noteq> []"
    and "iri \<in> set (cap_write (inst_caps inst))"
    and "cls = (case class_of_iri E iri of None \<Rightarrow> [] | Some c \<Rightarrow> c)"
  shows "write_endpoint E now s key req =
    (let s1 = s\<lparr>APPS := (APPS s)(aid \<mapsto> inst)\<rparr>; label = point_label req; v = req_value req;
         vlist = get_validators_for_class s cls
     in if vlist = [] then
          (Inl (HTTPException 400 ''No validators configured''),
           log_tx now ''regulator'' aid (inst_user inst) ''write'' iri label (Some v)
             ''deny'' ''no-validators'' s1)
        else
          (case run_enforced E s cls label v (proxy_read s label) vlist of
             Inl e \<Rightarrow> (Inl e, s1)
           | Inr (Some reason) \<Rightarrow>
               (Inl (HTTPException 400 (''Guard blocked: '' @ reason)),
                log_tx now ''regulator'' aid (inst_user inst) ''write'' iri label (Some v)
                  ''deny'' reason s1)
           | Inr None \<Rightarrow>
               (case run_shadow E s now aid (inst_user inst) iri cls label v (proxy_read s label)
                       (get_shadow_validators_for_class s cls) of
                  (err, logged) \<Rightarrow>
                    (let s2 = s1\<lparr>shadowlog := shadowlog s @ logged\<rparr>
                     in case err of
                          Some e \<Rightarrow> (Inl e, s2)
                        | None \<Rightarrow>
                            (Inr (WriteOk label v),
                             log_tx now ''proxy'' aid (inst_user inst) ''write'' iri label (Some v)
                               ''allow'' ''ok'' (proxy_write now label v s2))))))"
  using assms
  by (simp add: write_endpoint_def Let_def run_enforced_APPS run_shadow_APPS
        get_validators_for_class_def get_shadow_validators_for_class_def proxy_read_def
        split: sum.split option.split prod.split)

lemma write_enforced_stage:
  assumes "get_app_instance_from_key s key = Inr (aid, inst0)"
    and "token_bucket_ok now inst0 = (True, inst)"
    and "LABEL2IRI s (point_label req) = Some iri" and "iri \<noteq> []"
    and "iri \<in> set (cap_write (inst_caps inst))"
    and "cls = (case class_of_iri E iri of None \<Rightarrow> [] | Some c \<Rightarrow> c)"
    and "get_validators_for_class s cls \<noteq> []"
    and "run_enforced E s cls (point_label req) (req_value req) (proxy_read s (point_label req))
           (get_validators_for_class s cls) = Inr (Some reason)"
  shows "write_endpoint E now s key req =
           (Inl (HTTPException 400 (''Guard blocked: '' @ reason)),
            s\<lparr>APPS := (APPS s)(aid \<mapsto> inst),
              txlog := txlog s @
                [\<lparr>tx_ts = now, tx_actor = ''regulator'', tx_app_id = aid,
                  tx_user_id = inst_user inst, tx_action = ''write'', tx_point_iri = iri,
                  tx_point_label = point_label req, tx_value = Some (req_value req),
                  tx_decision = ''deny'', tx_reason = reason\<rparr>]\<rparr>)"
  using write_admitted [OF assms(1-6)] assms(7,8)
  by (simp add: Let_def log_tx_def)

lemma write_shadow_stage:
  assumes "get_app_instance_from_key s key = Inr (aid, inst0)"
    and "token_bucket_ok now inst0 = (True, inst)"
    and "LABEL2IRI s (point_label req) = Some iri" and "iri \<noteq> []"
    and "iri \<in> set (cap_write (inst_caps inst))"
    and "cls = (case class_of_iri E iri of None \<Rightarrow> [] | Some c \<Rightarrow> c)"
    and "get_validators_for_class s cls \<noteq> []"
    and "run_enforced E s cls (point_label req) (req_value req) (proxy_read s (point_label req))
           (get_validators_for_class s cls) = Inr None"
    and "run_shadow E s now aid (inst_user inst) iri cls (point_label req) (req_value req)
           (proxy_read s (point_label req)) (get_shadow_validators_for_class s cls) = (Some e, logged)"
  shows "write_endpoint E now s key req =
           (Inl e, s\<lparr>APPS := (APPS s)(aid \<mapsto> inst), shadowlog := shadowlog s @ logged\<rparr>)"
  using write_admitted [OF assms(1-6)] assms(7-9)
  by (simp add: Let_def)

lemma write_commit_stage:
  assumes "get_app_instance_from_key s key = Inr (aid, inst0)"
    and "token_bucket_ok now inst0 = (True, inst)"
    and "LABEL2IRI s (point_label req) = Some iri" and "iri \<noteq> []"
    and "iri \<in> set (cap_write (inst_caps inst))"
    and "cls = (case class_of_iri E iri of None \<Rightarrow> [] | Some c \<Rightarrow> c)"
    and "get_validators_for_class s cls \<noteq> []"
    and "run_enforced E s cls (point_label req) (req_value req) (proxy_read s (point_label req))
           (get_validators_for_class s cls) = Inr None"
    and "run_shadow E s now aid (inst_user inst) iri cls (point_label req) (req_value req)
           (proxy_read s (point_label req)) (get_shadow_validators_for_class s cls) = (None, logged)"
  shows "write_endpoint E now s key req =
           (Inr (WriteOk (point_label req) (req_value req)),
            s\<lparr>APPS := (APPS s)(aid \<mapsto> inst),
              shadowlog := shadowlog s @ logged,
              STATE := (STATE s)(point_label req \<mapsto> req_value req),
              timeseries := timeseries s @
                [\<lparr>ts_ts = now, ts_point_label = point_label req, ts_value = req_value req\<rparr>],
              txlog := txlog s @
                [\<lparr>tx_ts = now, tx_actor = ''proxy'', tx_app_id = aid,
                  tx_user_id = inst_user inst, tx_action = ''write'', tx_point_iri = iri,
                  tx_point_label = point_label req, tx_value = Some (req_value req),
                  tx_decision = ''allow'', tx_reason = ''ok''\<rparr>]\<rparr>)"
  using write_admitted [OF assms(1-6)] assms(7-9)
  by (simp add: Let_def log_tx_def proxy_write_def log_timeseries_def)

text \<open>
  What the validators and the loops raise is never an HTTP error.
\<close>

lemma py_int_error: "py_int x = Inl e \<Longrightarrow> e \<noteq> HTTPException c m"
  by (cases x) auto

lemma validator_error:
  "VALIDATOR_FUNS n = Some f \<Longrightarrow> f E s cls l v p = Inl e \<Longrightarrow> e \<noteq> HTTPException c m"
  by (auto simp: VALIDATOR_FUNS_def v_range_def v_rate_def v_energy_budget_def
        v_comfort_band_def g_item_def Let_def dest: py_int_error
        split: if_splits option.splits sum.splits)

lemma run_enforced_error:
  "run_enforced E s cls l v p vs = Inl e \<Longrightarrow> e \<noteq> HTTPException c m"
  by (induction vs) (auto dest: validator_error split: option.splits sum.splits prod.splits if_splits)

lemma run_shadow_error:
  "run_shadow E s now aid uid iri cls l v p vs = (Some e, logged) \<Longrightarrow> e \<noteq> HTTPException c m"
  by (induction vs arbitrary: logged)
     (auto dest: validator_error split: option.splits sum.splits prod.splits if_splits)

text \<open>
  The example instance passes the first four stages.
\<close>

lemma demo_auth: "get_app_instance_from_key demo_state (Some ''key_a'') = Inr (''a'', demo_instance)"
  by (simp add: get_app_instance_from_key_def demo_state_def)

lemma demo_gate: "token_bucket_ok 0 demo_instance = (True, demo_instance_1)"
  by (simp add: token_bucket_ok_def demo_instance_def demo_instance_1_def)

lemma demo_iri: "LABEL2IRI demo_state (point_label (demo_req v)) = Some ''urn:p1''"
  by (simp add: demo_state_def demo_req_def)

lemma demo_cap: "''urn:p1'' \<in> set (cap_write (inst_caps demo_instance_1))"
  by (simp add: demo_instance_def demo_instance_1_def)

lemma demo_class: "demo_cls = (case class_of_iri demo_env ''urn:p1'' of None \<Rightarrow> [] | Some c \<Rightarrow> c)"
  by (simp add: demo_env_def demo_cls_def)

lemma local_demo_cls: "local_name demo_cls = ''Cooling_Setpoint''"
  by (simp add: local_name_def demo_cls_def)

text \<open>
  Registered validators do raise: without a guards section, on a guard without the key
  the validator reads, on an infinite value.
\<close>

lemma v_range_no_guards:
  "v_range E (s\<lparr>guards := None\<rparr>) cls label v prev = Inl (KeyError ''guards'')"
  by (simp add: v_range_def)

lemma v_rate_missing_key:
  "v_rate demo_env
     (demo_state\<lparr>guards := Some [''Cooling_Setpoint'' \<mapsto> [(''min'', 18), (''max'', 28)]]\<rparr>)
     demo_cls ''F1_ZoneA_Cool_SP'' (Finite 23) (Some (Finite 22)) = Inl (KeyError ''max_step'')"
  by (simp add: v_rate_def g_item_def local_demo_cls)

lemma v_energy_budget_overflow:
  "v_energy_budget demo_env demo_state demo_cls ''F1_ZoneA_Cool_SP'' NegInf prev
     = Inl (OverflowError ''cannot convert float infinity to integer'')"
  by (simp add: v_energy_budget_def c_get_def inf_sign_def demo_state_def)

subsection \<open>Atomicity\<close>

text \<open>
  C9. Every write request that ends in a failure (any raised exception: 401, 403, 404,
  429, 400 or an error raised by the registry lookup or by a validator) leaves the
  value of every point and the time series as they were. A request that succeeds has a
  non-empty enforced chain whose validators all accepted; it stores the requested value
  for its label and adds one time-series sample.
\<close>

theorem write_atomic:
  assumes "write_endpoint E now s key req = (r, s')"
  shows "(\<forall>e. r = Inl e \<longrightarrow> STATE s' = STATE s \<and> timeseries s' = timeseries s)
       \<and> (\<forall>x. r = Inr x \<longrightarrow>
            (\<exists>iri cls. LABEL2IRI s (point_label req) = Some iri
               \<and> cls = (case class_of_iri E iri of None \<Rightarrow> [] | Some c \<Rightarrow> c)
               \<and> get_validators_for_class s cls \<noteq> []
               \<and> run_enforced E s cls (point_label req) (req_value req)
                    (proxy_read s (point_label req)) (get_validators_for_class s cls) = Inr None)
            \<and> STATE s' = (STATE s)(point_label req \<mapsto> req_value req)
            \<and> timeseries s' = timeseries s @
                 [\<lparr>ts_ts = now, ts_point_label = point_label req, ts_value = req_value req\<rparr>])"
  using assms
  by (auto simp: write_endpoint_def Let_def log_tx_def proxy_write_def log_timeseries_def
        run_enforced_APPS get_validators_for_class_def proxy_read_def
        split: sum.splits prod.splits option.splits if_splits)

text \<open>
  A request rejected by the range guard, with the value table and the time series
  unchanged, and an accepted one, with the value stored and one sample added.
\<close>

theorem write_atomic_witness:
  "fst (write_endpoint demo_env 0 chain_state (Some ''key_a'') (demo_req 30))
     = Inl (HTTPException 400 (''Guard blocked: range n'' @ en_dash @ ''n''))
   \<and> STATE (snd (write_endpoint demo_env 0 chain_state (Some ''key_a'') (demo_req 30)))
     = STATE chain_state
   \<and> timeseries (snd (write_endpoint demo_env 0 chain_state (Some ''key_a'') (demo_req 30)))
     = timeseries chain_state
   \<and> fst (write_endpoint demo_env 0 demo_state (Some ''key_a'') (demo_req 23))
     = Inr (WriteOk ''F1_ZoneA_Cool_SP'' (Finite 23))
   \<and> STATE (snd (write_endpoint demo_env 0 demo_state (Some ''key_a'') (demo_req 23)))
     = (STATE demo_state)(''F1_ZoneA_Cool_SP'' \<mapsto> Finite 23)
   \<and> timeseries (snd (write_endpoint demo_env 0 demo_state (Some ''key_a'') (demo_req 23)))
     = [\<lparr>ts_ts = 0, ts_point_label = ''F1_ZoneA_Cool_SP'', ts_value = Finite 23\<rparr>]"
proof -
  have a: "get_app_instance_from_key chain_state (Some ''key_a'') = Inr (''a'', demo_instance)"
    by (simp add: get_app_instance_from_key_def chain_state_def demo_state_def)
  have i: "LABEL2IRI chain_state (point_label (demo_req 30)) = Some ''urn:p1''"
    by (simp add: chain_state_def demo_state_def demo_req_def)
  have n: "''urn:p1'' \<noteq> []" by simp
  have c: "get_validators_for_class chain_state demo_cls = [''range'', ''rate'']"
    by (simp add: get_validators_for_class_def select_vtypes_def local_demo_cls
          chain_state_def demo_state_def)
  have ne: "get_validators_for_class chain_state demo_cls \<noteq> []"
    using c by simp
  have e4: "point_label (demo_req 30) = ''F1_ZoneA_Cool_SP''" "req_value (demo_req 30) = Finite 30"
    by (simp_all add: demo_req_def)
  have pr: "proxy_read chain_state ''F1_ZoneA_Cool_SP'' = Some (Finite 22)"
    by (simp add: proxy_read_def chain_state_def demo_state_def)
  have rv: "v_range demo_env chain_state demo_cls ''F1_ZoneA_Cool_SP'' (Finite 30) (Some (Finite 22))
              = Inr (False, ''range n'' @ en_dash @ ''n'')"
    by (simp add: v_range_def g_item_def local_demo_cls chain_state_def demo_state_def demo_env_def)
  have en: "run_enforced demo_env chain_state demo_cls (point_label (demo_req 30))
              (req_value (demo_req 30)) (proxy_read chain_state (point_label (demo_req 30)))
              (get_validators_for_class chain_state demo_cls)
            = Inr (Some (''range n'' @ en_dash @ ''n''))"
    by (simp add: c e4 pr VALIDATOR_FUNS_def rv)
  note w = write_enforced_stage [OF a demo_gate i n demo_cap demo_class ne en]
  have c2: "get_validators_for_class demo_state demo_cls = [''range'']"
    by (simp add: get_validators_for_class_def select_vtypes_def local_demo_cls demo_state_def)
  have ne2: "get_validators_for_class demo_state demo_cls \<noteq> []"
    using c2 by simp
  have sv2: "get_shadow_validators_for_class demo_state demo_cls = [''comfort_band'']"
    by (simp add: get_shadow_validators_for_class_def select_vtypes_def local_demo_cls
          demo_state_def)
  have f4: "point_label (demo_req 23) = ''F1_ZoneA_Cool_SP''" "req_value (demo_req 23) = Finite 23"
    by (simp_all add: demo_req_def)
  have pr2: "proxy_read demo_state ''F1_ZoneA_Cool_SP'' = Some (Finite 22)"
    by (simp add: proxy_read_def demo_state_def)
  have rv2: "v_range demo_env demo_state demo_cls ''F1_ZoneA_Cool_SP'' (Finite 23) (Some (Finite 22)) = Inr (True, ''ok'')"
    by (simp add: v_range_def g_item_def local_demo_cls demo_state_def)
  have cb2: "v_comfort_band demo_env demo_state demo_cls ''F1_ZoneA_Cool_SP'' (Finite 23) (Some (Finite 22)) = Inr (True, ''ok'')"
    by (simp add: v_comfort_band_def c_get_def demo_state_def)
  have en2: "run_enforced demo_env demo_state demo_cls (point_label (demo_req 23))
               (req_value (demo_req 23)) (proxy_read demo_state (point_label (demo_req 23)))
               (get_validators_for_class demo_state demo_cls) = Inr None"
    by (simp add: c2 f4 pr2 VALIDATOR_FUNS_def rv2)
  have sh2: "run_shadow demo_env demo_state 0 ''a'' (inst_user demo_instance_1) ''urn:p1'' demo_cls
               (point_label (demo_req 23)) (req_value (demo_req 23))
               (proxy_read demo_state (point_label (demo_req 23)))
               (get_shadow_validators_for_class demo_state demo_cls) = (None, [])"
    by (simp add: sv2 f4 pr2 VALIDATOR_FUNS_def cb2)
  note w2 = write_commit_stage [OF demo_auth demo_gate demo_iri n demo_cap demo_class ne2 en2 sh2]
  have ts: "timeseries demo_state = []"
    by (simp add: demo_state_def)
  from write_atomic [OF w] write_atomic [OF w2] w w2
  show ?thesis by (simp add: f4 ts)
qed

subsection \<open>Fail-closed on an empty chain\<close>

text \<open>
  C5. A write request that passes authentication, the rate gate, point resolution and
  the capability check, for a point whose class has no enforced validator, is refused
  with status 400 and "No validators configured"; one transaction row is added, with
  actor \<open>regulator\<close>, decision \<open>deny\<close> and reason \<open>no-validators\<close>, whatever the
  requested value; nothing else changes but the rate bucket.
\<close>

theorem write_no_validators:
  assumes "get_app_instance_from_key s key = Inr (aid, inst0)"
    and "token_bucket_ok now inst0 = (True, inst)"
    and "LABEL2IRI s (point_label req) = Some iri" and "iri \<noteq> []"
    and "iri \<in> set (cap_write (inst_caps inst))"
    and "get_validators_for_class s (case class_of_iri E iri of None \<Rightarrow> [] | Some c \<Rightarrow> c) = []"
  shows "write_endpoint E now s key req =
           (Inl (HTTPException 400 ''No validators configured''),
            s\<lparr>APPS := (APPS s)(aid \<mapsto> inst),
              txlog := txlog s @
                [\<lparr>tx_ts = now, tx_actor = ''regulator'', tx_app_id = aid,
                  tx_user_id = inst_user inst, tx_action = ''write'', tx_point_iri = iri,
                  tx_point_label = point_label req, tx_value = Some (req_value req),
                  tx_decision = ''deny'', tx_reason = ''no-validators''\<rparr>]\<rparr>)"
  using write_admitted [OF assms(1-5) refl, of E] assms(6)
  by (simp add: Let_def log_tx_def)

text \<open>
  The example state without enforced validators.
\<close>

theorem write_no_validators_witness:
  "write_endpoint demo_env 0 (demo_state\<lparr>validators := []\<rparr>) (Some ''key_a'') (demo_req 23) =
     (Inl (HTTPException 400 ''No validators configured''),
      demo_state\<lparr>validators := [], APPS := [''a'' \<mapsto> demo_instance_1],
        txlog :=
          [\<lparr>tx_ts = 0, tx_actor = ''regulator'', tx_app_id = ''a'',
            tx_user_id = ''alice'', tx_action = ''write'', tx_point_iri = ''urn:p1'',
            tx_point_label = ''F1_ZoneA_Cool_SP'', tx_value = Some (Finite 23),
            tx_decision = ''deny'', tx_reason = ''no-validators''\<rparr>]\<rparr>)"
proof -
  let ?s = "demo_state\<lparr>validators := []\<rparr>"
  have a: "get_app_instance_from_key ?s (Some ''key_a'') = Inr (''a'', demo_instance)"
    by (simp add: get_app_instance_from_key_def demo_state_def)
  have i: "LABEL2IRI ?s (point_label (demo_req 23)) = Some ''urn:p1''"
    by (simp add: demo_state_def demo_req_def)
  have n: "''urn:p1'' \<noteq> []" by simp
  have e: "get_validators_for_class ?s
             (case class_of_iri demo_env ''urn:p1'' of None \<Rightarrow> [] | Some c \<Rightarrow> c) = []"
    by (simp add: get_validators_for_class_def select_vtypes_def)
  show ?thesis
    using write_no_validators [OF a demo_gate i n demo_cap e]
    by (simp add: demo_state_def demo_req_def demo_instance_1_def demo_instance_def)
qed

subsection \<open>The enforced chain\<close>

lemma run_enforced_first_reject:
  assumes "\<forall>u \<in> set pre. \<exists>g r. VALIDATOR_FUNS u = Some g \<and> g E s cls l v p = Inr (True, r)"
    and "VALIDATOR_FUNS vname = Some f"
    and "f E s cls l v p = Inr (False, reason)"
  shows "run_enforced E s cls l v p (pre @ vname # post) = Inr (Some reason)"
  using assms by (induction pre) auto

lemma run_enforced_all_accept:
  assumes "\<forall>x \<in> set vs. \<exists>g r. VALIDATOR_FUNS x = Some g \<and> g E s cls l v p = Inr (True, r)"
  shows "run_enforced E s cls l v p vs = Inr None"
  using assms by (induction vs) auto

lemma select_vtypes_ordered:
  "\<exists>rows. select_vtypes t local = map vtype rows \<and> sorted (map position rows)
          \<and> mset rows = mset (filter (\<lambda>r. resource_class r = local) t)"
  unfolding select_vtypes_def
  by (rule exI [of _ "sort_key position (filter (\<lambda>r. resource_class r = local) t)"]) simp

text \<open>
  C6. The enforced chain is the class's rows in ascending position. When the
  validators before some validator of the chain all accept and that validator rejects
  with a reason, the request is refused with "Guard blocked: " and that reason, and one
  transaction row with actor \<open>regulator\<close>, decision \<open>deny\<close> and that reason is added.
  The validators after it are not evaluated: the result is the same for every rest of
  the chain, also one holding type tags the registry does not have.
\<close>

theorem enforced_chain_short_circuit:
  assumes "get_app_instance_from_key s key = Inr (aid, inst0)"
    and "token_bucket_ok now inst0 = (True, inst)"
    and "LABEL2IRI s (point_label req) = Some iri" and "iri \<noteq> []"
    and "iri \<in> set (cap_write (inst_caps inst))"
    and "cls = (case class_of_iri E iri of None \<Rightarrow> [] | Some c \<Rightarrow> c)"
    and "get_validators_for_class s cls = pre @ vname # post"
    and "\<forall>u \<in> set pre. \<exists>g r. VALIDATOR_FUNS u = Some g
           \<and> g E s cls (point_label req) (req_value req) (proxy_read s (point_label req)) = Inr (True, r)"
    and "VALIDATOR_FUNS vname = Some f"
    and "f E s cls (point_label req) (req_value req) (proxy_read s (point_label req)) = Inr (False, reason)"
  shows "(\<exists>rows. get_validators_for_class s cls = map vtype rows \<and> sorted (map position rows)
            \<and> mset rows = mset (filter (\<lambda>r. resource_class r = local_name cls) (validators s)))
       \<and> write_endpoint E now s key req =
           (Inl (HTTPException 400 (''Guard blocked: '' @ reason)),
            s\<lparr>APPS := (APPS s)(aid \<mapsto> inst),
              txlog := txlog s @
                [\<lparr>tx_ts = now, tx_actor = ''regulator'', tx_app_id = aid,
                  tx_user_id = inst_user inst, tx_action = ''write'', tx_point_iri = iri,
                  tx_point_label = point_label req, tx_value = Some (req_value req),
                  tx_decision = ''deny'', tx_reason = reason\<rparr>]\<rparr>)"
proof
  show "\<exists>rows. get_validators_for_class s cls = map vtype rows \<and> sorted (map position rows)
            \<and> mset rows = mset (filter (\<lambda>r. resource_class r = local_name cls) (validators s))"
    unfolding get_validators_for_class_def by (rule select_vtypes_ordered)
next
  have "run_enforced E s cls (point_label req) (req_value req) (proxy_read s (point_label req))
          (pre @ vname # post) = Inr (Some reason)"
    using assms(8-10) by (rule run_enforced_first_reject)
  with write_admitted [OF assms(1-6)] assms(7)
  show "write_endpoint E now s key req =
           (Inl (HTTPException 400 (''Guard blocked: '' @ reason)),
            s\<lparr>APPS := (APPS s)(aid \<mapsto> inst),
              txlog := txlog s @
                [\<lparr>tx_ts = now, tx_actor = ''regulator'', tx_app_id = aid,
                  tx_user_id = inst_user inst, tx_action = ''write'', tx_point_iri = iri,
                  tx_point_label = point_label req, tx_value = Some (req_value req),
                  tx_decision = ''deny'', tx_reason = reason\<rparr>]\<rparr>)"
    by (simp add: Let_def log_tx_def)
qed

text \<open>
  The chain \<open>[range, rate]\<close>, stored with \<open>rate\<close> first, and a value that both
  validators reject: the reason of \<open>range\<close> is the one recorded and returned.
\<close>

theorem enforced_chain_short_circuit_witness:
  "get_validators_for_class chain_state demo_cls = [''range'', ''rate'']
   \<and> v_range demo_env chain_state demo_cls ''F1_ZoneA_Cool_SP'' (Finite 30) (Some (Finite 22))
       = Inr (False, ''range n'' @ en_dash @ ''n'')
   \<and> v_rate demo_env chain_state demo_cls ''F1_ZoneA_Cool_SP'' (Finite 30) (Some (Finite 22)) = Inr (False, ''step>n'')
   \<and> write_endpoint demo_env 0 chain_state (Some ''key_a'') (demo_req 30) =
       (Inl (HTTPException 400 (''Guard blocked: range n'' @ en_dash @ ''n'')),
        chain_state\<lparr>APPS := [''a'' \<mapsto> demo_instance_1],
          txlog :=
            [\<lparr>tx_ts = 0, tx_actor = ''regulator'', tx_app_id = ''a'',
              tx_user_id = ''alice'', tx_action = ''write'', tx_point_iri = ''urn:p1'',
              tx_point_label = ''F1_ZoneA_Cool_SP'', tx_value = Some (Finite 30),
              tx_decision = ''deny'', tx_reason = ''range n'' @ en_dash @ ''n''\<rparr>]\<rparr>)"
proof -
  have a: "get_app_instance_from_key chain_state (Some ''key_a'') = Inr (''a'', demo_instance)"
    by (simp add: get_app_instance_from_key_def chain_state_def demo_state_def)
  have i: "LABEL2IRI chain_state (point_label (demo_req 30)) = Some ''urn:p1''"
    by (simp add: chain_state_def demo_state_def demo_req_def)
  have n: "''urn:p1'' \<noteq> []" by simp
  have c: "get_validators_for_class chain_state demo_cls = [] @ ''range'' # [''rate'']"
    by (simp add: get_validators_for_class_def select_vtypes_def local_demo_cls
          chain_state_def demo_state_def)
  have p: "\<forall>u \<in> set []. \<exists>g r. VALIDATOR_FUNS u = Some g
             \<and> g demo_env chain_state demo_cls (point_label (demo_req 30)) (req_value (demo_req 30))
                 (proxy_read chain_state (point_label (demo_req 30))) = Inr (True, r)"
    by simp
  have f: "VALIDATOR_FUNS ''range'' = Some v_range"
    by (simp add: VALIDATOR_FUNS_def)
  have r: "v_range demo_env chain_state demo_cls (point_label (demo_req 30)) (req_value (demo_req 30))
             (proxy_read chain_state (point_label (demo_req 30))) = Inr (False, ''range n'' @ en_dash @ ''n'')"
    by (simp add: v_range_def g_item_def local_demo_cls chain_state_def demo_state_def demo_req_def demo_env_def)
  have r2: "v_rate demo_env chain_state demo_cls ''F1_ZoneA_Cool_SP'' (Finite 30) (Some (Finite 22)) = Inr (False, ''step>n'')"
    by (simp add: v_rate_def g_item_def fl_small local_demo_cls chain_state_def demo_state_def demo_env_def)
  have c': "get_validators_for_class chain_state demo_cls = [''range'', ''rate'']"
    using c by simp
  have r': "v_range demo_env chain_state demo_cls ''F1_ZoneA_Cool_SP'' (Finite 30) (Some (Finite 22))
              = Inr (False, ''range n'' @ en_dash @ ''n'')"
    by (simp add: v_range_def g_item_def local_demo_cls chain_state_def demo_state_def demo_env_def)
  have e1: "(APPS chain_state)(''a'' \<mapsto> demo_instance_1) = [''a'' \<mapsto> demo_instance_1]"
    by (simp add: chain_state_def demo_state_def)
  have e2: "txlog chain_state = []"
    by (simp add: chain_state_def demo_state_def)
  have e3: "inst_user demo_instance_1 = ''alice''"
    by (simp add: demo_instance_1_def demo_instance_def)
  have e4: "point_label (demo_req 30) = ''F1_ZoneA_Cool_SP''" "req_value (demo_req 30) = Finite 30"
    by (simp_all add: demo_req_def)
  have w: "write_endpoint demo_env 0 chain_state (Some ''key_a'') (demo_req 30) =
       (Inl (HTTPException 400 (''Guard blocked: range n'' @ en_dash @ ''n'')),
        chain_state\<lparr>APPS := [''a'' \<mapsto> demo_instance_1],
          txlog :=
            [\<lparr>tx_ts = 0, tx_actor = ''regulator'', tx_app_id = ''a'',
              tx_user_id = ''alice'', tx_action = ''write'', tx_point_iri = ''urn:p1'',
              tx_point_label = ''F1_ZoneA_Cool_SP'', tx_value = Some (Finite 30),
              tx_decision = ''deny'', tx_reason = ''range n'' @ en_dash @ ''n''\<rparr>]\<rparr>)"
    using enforced_chain_short_circuit [OF a demo_gate i n demo_cap demo_class c p f r]
    by (simp add: e1 e2 e3 e4)
  show ?thesis
    using c' r' r2 w by simp
qed

subsection \<open>The shadow chain\<close>

lemma rejects_iff:
  "VALIDATOR_FUNS u = Some f \<Longrightarrow> f E s cls l v p = Inr (ok, r) \<Longrightarrow> rejects E s cls l v p u = (\<not> ok)"
  by (simp add: rejects_def)

lemma run_shadow_returns:
  assumes "\<forall>u \<in> set sv. \<exists>f ok r. VALIDATOR_FUNS u = Some f \<and> f E s cls l v p = Inr (ok, r)"
  shows "\<exists>logged. run_shadow E s now aid uid iri cls l v p sv = (None, logged)
           \<and> map sh_vtype logged = filter (rejects E s cls l v p) sv
           \<and> (\<forall>row \<in> set logged.
                 \<exists>f. VALIDATOR_FUNS (sh_vtype row) = Some f
                   \<and> f E s cls l v p = Inr (False, sh_reason row)
                   \<and> row = log_shadow now aid uid iri l v cls (sh_vtype row) (sh_reason row))"
  using assms
proof (induction sv)
  case Nil
  then show ?case by simp
next
  case (Cons u sv)
  then obtain f ok reason where f: "VALIDATOR_FUNS u = Some f"
    and r: "f E s cls l v p = Inr (ok, reason)" by auto
  from Cons obtain logged where
    l: "run_shadow E s now aid uid iri cls l v p sv = (None, logged)"
       "map sh_vtype logged = filter (rejects E s cls l v p) sv"
       "\<forall>row \<in> set logged.
          \<exists>f. VALIDATOR_FUNS (sh_vtype row) = Some f
            \<and> f E s cls l v p = Inr (False, sh_reason row)
            \<and> row = log_shadow now aid uid iri l v cls (sh_vtype row) (sh_reason row)"
    by auto
  show ?case
  proof (cases ok)
    case True
    with f l r rejects_iff [OF f r] show ?thesis by simp
  next
    case False
    with f l r rejects_iff [OF f r] show ?thesis by (simp add: log_shadow_def)
  qed
qed

text \<open>
  C7 (as amended). After a write has passed the enforced chain, and provided every
  evaluation of the class's shadow chain returns a verdict (its type tag is in the
  validator registry and the validator does not raise), every shadow validator is
  evaluated, each rejecting evaluation adds exactly one shadow row (in chain order,
  with the validator's tag and reason), and the write commits: the value is stored,
  one time-series sample is added and one transaction row with actor \<open>proxy\<close> and
  decision \<open>allow\<close> is added.
\<close>

theorem shadow_chain_never_blocks:
  assumes "get_app_instance_from_key s key = Inr (aid, inst0)"
    and "token_bucket_ok now inst0 = (True, inst)"
    and "LABEL2IRI s (point_label req) = Some iri" and "iri \<noteq> []"
    and "iri \<in> set (cap_write (inst_caps inst))"
    and "cls = (case class_of_iri E iri of None \<Rightarrow> [] | Some c \<Rightarrow> c)"
    and "get_validators_for_class s cls \<noteq> []"
    and "run_enforced E s cls (point_label req) (req_value req) (proxy_read s (point_label req))
           (get_validators_for_class s cls) = Inr None"
    and "\<forall>u \<in> set (get_shadow_validators_for_class s cls).
           \<exists>f ok r. VALIDATOR_FUNS u = Some f
             \<and> f E s cls (point_label req) (req_value req) (proxy_read s (point_label req)) = Inr (ok, r)"
  shows "\<exists>logged.
           write_endpoint E now s key req =
             (Inr (WriteOk (point_label req) (req_value req)),
              s\<lparr>APPS := (APPS s)(aid \<mapsto> inst),
                shadowlog := shadowlog s @ logged,
                STATE := (STATE s)(point_label req \<mapsto> req_value req),
                timeseries := timeseries s @
                  [\<lparr>ts_ts = now, ts_point_label = point_label req, ts_value = req_value req\<rparr>],
                txlog := txlog s @
                  [\<lparr>tx_ts = now, tx_actor = ''proxy'', tx_app_id = aid,
                    tx_user_id = inst_user inst, tx_action = ''write'', tx_point_iri = iri,
                    tx_point_label = point_label req, tx_value = Some (req_value req),
                    tx_decision = ''allow'', tx_reason = ''ok''\<rparr>]\<rparr>)
         \<and> map sh_vtype logged =
             filter (rejects E s cls (point_label req) (req_value req) (proxy_read s (point_label req)))
               (get_shadow_validators_for_class s cls)
         \<and> (\<forall>row \<in> set logged.
               \<exists>f. VALIDATOR_FUNS (sh_vtype row) = Some f
                 \<and> f E s cls (point_label req) (req_value req) (proxy_read s (point_label req))
                     = Inr (False, sh_reason row)
                 \<and> row = log_shadow now aid (inst_user inst) iri (point_label req) (req_value req)
                           cls (sh_vtype row) (sh_reason row))"
proof -
  from run_shadow_returns [OF assms(9)]
  obtain logged where
    l: "run_shadow E s now aid (inst_user inst) iri cls (point_label req) (req_value req)
          (proxy_read s (point_label req)) (get_shadow_validators_for_class s cls) = (None, logged)"
       "map sh_vtype logged =
          filter (rejects E s cls (point_label req) (req_value req) (proxy_read s (point_label req)))
            (get_shadow_validators_for_class s cls)"
       "\<forall>row \<in> set logged.
           \<exists>f. VALIDATOR_FUNS (sh_vtype row) = Some f
             \<and> f E s cls (point_label req) (req_value req) (proxy_read s (point_label req))
                 = Inr (False, sh_reason row)
             \<and> row = log_shadow now aid (inst_user inst) iri (point_label req) (req_value req)
                       cls (sh_vtype row) (sh_reason row)"
    by blast
  have "write_endpoint E now s key req =
             (Inr (WriteOk (point_label req) (req_value req)),
              s\<lparr>APPS := (APPS s)(aid \<mapsto> inst),
                shadowlog := shadowlog s @ logged,
                STATE := (STATE s)(point_label req \<mapsto> req_value req),
                timeseries := timeseries s @
                  [\<lparr>ts_ts = now, ts_point_label = point_label req, ts_value = req_value req\<rparr>],
                txlog := txlog s @
                  [\<lparr>tx_ts = now, tx_actor = ''proxy'', tx_app_id = aid,
                    tx_user_id = inst_user inst, tx_action = ''write'', tx_point_iri = iri,
                    tx_point_label = point_label req, tx_value = Some (req_value req),
                    tx_decision = ''allow'', tx_reason = ''ok''\<rparr>]\<rparr>)"
    using write_admitted [OF assms(1-6)] assms(7,8) l(1)
    by (simp add: Let_def log_tx_def proxy_write_def log_timeseries_def)
  with l(2,3) show ?thesis by blast
qed

text \<open>
  A shadow chain of three in which the first and the third validator reject.
\<close>

theorem shadow_chain_never_blocks_witness:
  "fst (write_endpoint demo_env 0 shadow_state (Some ''key_a'') (demo_req 25))
     = Inr (WriteOk ''F1_ZoneA_Cool_SP'' (Finite 25))
   \<and> map sh_vtype (shadowlog (snd (write_endpoint demo_env 0 shadow_state (Some ''key_a'') (demo_req 25))))
     = [''comfort_band'', ''rate'']
   \<and> STATE (snd (write_endpoint demo_env 0 shadow_state (Some ''key_a'') (demo_req 25)))
        ''F1_ZoneA_Cool_SP'' = Some (Finite 25)
   \<and> map tx_decision (txlog (snd (write_endpoint demo_env 0 shadow_state (Some ''key_a'') (demo_req 25))))
     = [''allow'']"
proof -
  have a: "get_app_instance_from_key shadow_state (Some ''key_a'') = Inr (''a'', demo_instance)"
    by (simp add: get_app_instance_from_key_def shadow_state_def demo_state_def)
  have i: "LABEL2IRI shadow_state (point_label (demo_req 25)) = Some ''urn:p1''"
    by (simp add: shadow_state_def demo_state_def demo_req_def)
  have n: "''urn:p1'' \<noteq> []" by simp
  have c: "get_validators_for_class shadow_state demo_cls = [''range'']"
    by (simp add: get_validators_for_class_def select_vtypes_def local_demo_cls
          shadow_state_def demo_state_def)
  have sv: "get_shadow_validators_for_class shadow_state demo_cls = [''comfort_band'', ''range'', ''rate'']"
    by (simp add: get_shadow_validators_for_class_def select_vtypes_def local_demo_cls
          shadow_state_def demo_state_def)
  have e4: "point_label (demo_req 25) = ''F1_ZoneA_Cool_SP''" "req_value (demo_req 25) = Finite 25"
    by (simp_all add: demo_req_def)
  have pr: "proxy_read shadow_state ''F1_ZoneA_Cool_SP'' = Some (Finite 22)"
    by (simp add: proxy_read_def shadow_state_def demo_state_def)
  have rv: "v_range demo_env shadow_state demo_cls ''F1_ZoneA_Cool_SP'' (Finite 25) (Some (Finite 22)) = Inr (True, ''ok'')"
    by (simp add: v_range_def g_item_def local_demo_cls shadow_state_def demo_state_def)
  have rt: "v_rate demo_env shadow_state demo_cls ''F1_ZoneA_Cool_SP'' (Finite 25) (Some (Finite 22)) = Inr (False, ''step>n'')"
    by (simp add: v_rate_def g_item_def fl_small local_demo_cls shadow_state_def demo_state_def demo_env_def)
  have cb: "v_comfort_band demo_env shadow_state demo_cls ''F1_ZoneA_Cool_SP'' (Finite 25) (Some (Finite 22))
              = Inr (False, ''comfort_band n'' @ en_dash @ ''n'')"
    by (simp add: v_comfort_band_def c_get_def shadow_state_def demo_state_def demo_env_def)
  have ne: "get_validators_for_class shadow_state demo_cls \<noteq> []"
    using c by simp
  have en: "run_enforced demo_env shadow_state demo_cls (point_label (demo_req 25))
              (req_value (demo_req 25)) (proxy_read shadow_state (point_label (demo_req 25)))
              (get_validators_for_class shadow_state demo_cls) = Inr None"
    by (simp add: c e4 pr VALIDATOR_FUNS_def rv)
  have rg: "\<forall>u \<in> set (get_shadow_validators_for_class shadow_state demo_cls).
              \<exists>f ok r. VALIDATOR_FUNS u = Some f
                \<and> f demo_env shadow_state demo_cls (point_label (demo_req 25)) (req_value (demo_req 25))
                      (proxy_read shadow_state (point_label (demo_req 25))) = Inr (ok, r)"
    by (auto simp: sv e4 pr VALIDATOR_FUNS_def rv rt cb)
  have rj: "filter (rejects demo_env shadow_state demo_cls ''F1_ZoneA_Cool_SP'' (Finite 25) (Some (Finite 22)))
              [''comfort_band'', ''range'', ''rate''] = [''comfort_band'', ''rate'']"
    by (simp add: rejects_def VALIDATOR_FUNS_def rv rt cb)
  from shadow_chain_never_blocks [OF a demo_gate i n demo_cap demo_class ne en rg]
  obtain logged where
    w: "write_endpoint demo_env 0 shadow_state (Some ''key_a'') (demo_req 25) =
          (Inr (WriteOk (point_label (demo_req 25)) (req_value (demo_req 25))),
           shadow_state\<lparr>APPS := (APPS shadow_state)(''a'' \<mapsto> demo_instance_1),
             shadowlog := shadowlog shadow_state @ logged,
             STATE := (STATE shadow_state)(point_label (demo_req 25) \<mapsto> req_value (demo_req 25)),
             timeseries := timeseries shadow_state @
               [\<lparr>ts_ts = 0, ts_point_label = point_label (demo_req 25),
                 ts_value = req_value (demo_req 25)\<rparr>],
             txlog := txlog shadow_state @
               [\<lparr>tx_ts = 0, tx_actor = ''proxy'', tx_app_id = ''a'',
                 tx_user_id = inst_user demo_instance_1, tx_action = ''write'',
                 tx_point_iri = ''urn:p1'', tx_point_label = point_label (demo_req 25),
                 tx_value = Some (req_value (demo_req 25)),
                 tx_decision = ''allow'', tx_reason = ''ok''\<rparr>]\<rparr>)"
    and m: "map sh_vtype logged =
              filter (rejects demo_env shadow_state demo_cls (point_label (demo_req 25))
                        (req_value (demo_req 25)) (proxy_read shadow_state (point_label (demo_req 25))))
                (get_shadow_validators_for_class shadow_state demo_cls)"
    by blast
  have m': "map sh_vtype logged = [''comfort_band'', ''rate'']"
    using m by (simp only: e4 pr sv rj)
  have e2: "shadowlog shadow_state = []" "txlog shadow_state = []"
    by (simp_all add: shadow_state_def demo_state_def)
  show ?thesis
    by (simp add: w m' e2 e4)
qed

text \<open>
  C7 as stated, with a shadow chain whose only type tag is not in the registry: the
  enforced chain passes, the registry lookup of the shadow loop raises, and the write
  is neither committed nor logged.
\<close>

theorem shadow_unregistered_counterexample:
  "run_enforced demo_env typo_state demo_cls ''F1_ZoneA_Cool_SP'' (Finite 23) (Some (Finite 22))
      (get_validators_for_class typo_state demo_cls) = Inr None
   \<and> get_shadow_validators_for_class typo_state demo_cls = [''comfort_bands'']
   \<and> write_endpoint demo_env 0 typo_state (Some ''key_a'') (demo_req 23)
      = (Inl (KeyError ''comfort_bands''), typo_state\<lparr>APPS := [''a'' \<mapsto> demo_instance_1]\<rparr>)"
proof -
  have a: "get_app_instance_from_key typo_state (Some ''key_a'') = Inr (''a'', demo_instance)"
    by (simp add: get_app_instance_from_key_def typo_state_def demo_state_def)
  have i: "LABEL2IRI typo_state (point_label (demo_req 23)) = Some ''urn:p1''"
    by (simp add: typo_state_def demo_state_def demo_req_def)
  have n: "''urn:p1'' \<noteq> []" by simp
  have c: "get_validators_for_class typo_state demo_cls = [''range'']"
    by (simp add: get_validators_for_class_def select_vtypes_def local_demo_cls
          typo_state_def demo_state_def)
  have sv: "get_shadow_validators_for_class typo_state demo_cls = [''comfort_bands'']"
    by (simp add: get_shadow_validators_for_class_def select_vtypes_def local_demo_cls
          typo_state_def demo_state_def)
  have e4: "point_label (demo_req 23) = ''F1_ZoneA_Cool_SP''" "req_value (demo_req 23) = Finite 23"
    by (simp_all add: demo_req_def)
  have pr: "proxy_read typo_state ''F1_ZoneA_Cool_SP'' = Some (Finite 22)"
    by (simp add: proxy_read_def typo_state_def demo_state_def)
  have rv: "v_range demo_env typo_state demo_cls ''F1_ZoneA_Cool_SP'' (Finite 23) (Some (Finite 22)) = Inr (True, ''ok'')"
    by (simp add: v_range_def g_item_def local_demo_cls typo_state_def demo_state_def)
  have en: "run_enforced demo_env typo_state demo_cls ''F1_ZoneA_Cool_SP'' (Finite 23) (Some (Finite 22)) [''range'']
              = Inr None"
    by (simp add: VALIDATOR_FUNS_def rv)
  have ne: "get_validators_for_class typo_state demo_cls \<noteq> []"
    using c by simp
  have en': "run_enforced demo_env typo_state demo_cls (point_label (demo_req 23))
               (req_value (demo_req 23)) (proxy_read typo_state (point_label (demo_req 23)))
               (get_validators_for_class typo_state demo_cls) = Inr None"
    using en by (simp add: c e4 pr)
  have sh: "run_shadow demo_env typo_state 0 ''a'' (inst_user demo_instance_1) ''urn:p1'' demo_cls
              (point_label (demo_req 23)) (req_value (demo_req 23))
              (proxy_read typo_state (point_label (demo_req 23)))
              (get_shadow_validators_for_class typo_state demo_cls)
            = (Some (KeyError ''comfort_bands''), [])"
    by (simp add: sv VALIDATOR_FUNS_def)
  have e1: "(APPS typo_state)(''a'' \<mapsto> demo_instance_1) = [''a'' \<mapsto> demo_instance_1]"
    by (simp add: typo_state_def demo_state_def)
  have e2: "shadowlog typo_state = []"
    by (simp add: typo_state_def demo_state_def)
  have w: "write_endpoint demo_env 0 typo_state (Some ''key_a'') (demo_req 23)
      = (Inl (KeyError ''comfort_bands''), typo_state\<lparr>APPS := [''a'' \<mapsto> demo_instance_1]\<rparr>)"
    using write_shadow_stage [OF a demo_gate i n demo_cap demo_class ne en' sh]
    by (simp add: e1 e2)
  show ?thesis using c sv en w by simp
qed

subsection \<open>The rate gate\<close>

lemma length_write_seq: "length (fst (write_seq E s key trs)) = length trs"
  by (induction E s key trs rule: write_seq.induct) (auto split: prod.splits)

lemma auth_Inr:
  "get_app_instance_from_key s (Some k) = Inr (aid, inst) \<longleftrightarrow>
     k \<noteq> [] \<and> APP_KEYS s k = Some aid \<and> aid \<noteq> [] \<and> APPS s aid = Some inst"
  by (auto simp: get_app_instance_from_key_def split: option.splits)

lemma write_registry:
  assumes "get_app_instance_from_key s key = Inr (aid, inst0)"
  shows "APP_KEYS (snd (write_endpoint E now s key req)) = APP_KEYS s"
    and "APPS (snd (write_endpoint E now s key req)) = (APPS s)(aid \<mapsto> snd (token_bucket_ok now inst0))"
  using assms
  by (auto simp: write_endpoint_def Let_def log_tx_def proxy_write_def log_timeseries_def
        split: sum.splits prod.splits option.splits)

lemma write_rate_limited_iff:
  assumes "get_app_instance_from_key s key = Inr (aid, inst0)"
  shows "fst (write_endpoint E now s key req) = rate_limited \<longleftrightarrow> \<not> fst (token_bucket_ok now inst0)"
  using assms
  by (auto simp: write_endpoint_def Let_def rate_limited_def
        dest: run_enforced_error run_shadow_error
        split: sum.splits prod.splits option.splits)

lemma token_bucket_ok_Some:
  assumes "inst_rate inst = Some b" and "\<lfloor>now / 60\<rfloor> = w"
  shows "token_bucket_ok now inst =
           (let c = (if win b = w then tokens b else 0)
            in (c < limit b,
                inst\<lparr>inst_rate := Some (b\<lparr>win := w, tokens := (if limit b \<le> c then c else c + 1)\<rparr>)\<rparr>))"
  using assms by (auto simp: token_bucket_ok_def Let_def)

lemma write_rate_step:
  assumes a: "get_app_instance_from_key s (Some k) = Inr (aid, inst)"
    and b: "inst_rate inst = Some b" and w: "\<lfloor>now / 60\<rfloor> = w"
  defines "c \<equiv> (if win b = w then tokens b else 0)"
  shows "fst (write_endpoint E now s (Some k) req) = rate_limited \<longleftrightarrow> limit b \<le> c"
    and "get_app_instance_from_key (snd (write_endpoint E now s (Some k) req)) (Some k) =
           Inr (aid, inst\<lparr>inst_rate :=
                  Some (b\<lparr>win := w, tokens := (if limit b \<le> c then c else c + 1)\<rparr>)\<rparr>)"
proof -
  have t: "token_bucket_ok now inst =
             (c < limit b,
              inst\<lparr>inst_rate := Some (b\<lparr>win := w, tokens := (if limit b \<le> c then c else c + 1)\<rparr>)\<rparr>)"
    using token_bucket_ok_Some [OF b w] by (simp add: c_def Let_def)
  show "fst (write_endpoint E now s (Some k) req) = rate_limited \<longleftrightarrow> limit b \<le> c"
    using write_rate_limited_iff [OF a, of E now req] t by auto
  show "get_app_instance_from_key (snd (write_endpoint E now s (Some k) req)) (Some k) =
           Inr (aid, inst\<lparr>inst_rate :=
                  Some (b\<lparr>win := w, tokens := (if limit b \<le> c then c else c + 1)\<rparr>)\<rparr>)"
    using a write_registry [OF a, of E now req] t
    by (simp add: auth_Inr)
qed

lemma write_seq_rate:
  assumes "get_app_instance_from_key s (Some k) = Inr (aid, inst)"
    and "inst_rate inst = Some b"
    and "\<forall>(t, r) \<in> set trs. \<lfloor>t / 60\<rfloor> = w"
    and "c = (if win b = w then tokens b else 0)"
  shows "(\<forall>i < length trs. fst (write_seq E s (Some k) trs) ! i = rate_limited \<longleftrightarrow> limit b \<le> c + int i)
       \<and> get_app_instance_from_key (snd (write_seq E s (Some k) trs)) (Some k) =
           Inr (aid, inst\<lparr>inst_rate :=
                  Some (if trs = [] then b
                        else b\<lparr>win := w,
                               tokens := (if limit b \<le> c then c
                                          else min (limit b) (c + int (length trs)))\<rparr>)\<rparr>)"
  using assms
proof (induction trs arbitrary: s inst b c)
  case Nil
  then show ?case by simp
next
  case (Cons tr trs)
  obtain now req where tr: "tr = (now, req)" by (cases tr)
  from Cons.prems(3) tr have w: "\<lfloor>now / 60\<rfloor> = w" by simp
  let ?c1 = "if limit b \<le> c then c else c + 1"
  let ?b1 = "b\<lparr>win := w, tokens := ?c1\<rparr>"
  let ?inst1 = "inst\<lparr>inst_rate := Some ?b1\<rparr>"
  let ?s1 = "snd (write_endpoint E now s (Some k) req)"
  have r0: "fst (write_endpoint E now s (Some k) req) = rate_limited \<longleftrightarrow> limit b \<le> c"
    using write_rate_step(1) [OF Cons.prems(1,2) w] Cons.prems(4) by simp
  have a1: "get_app_instance_from_key ?s1 (Some k) = Inr (aid, ?inst1)"
    using write_rate_step(2) [OF Cons.prems(1,2) w] Cons.prems(4) by simp
  have b1: "inst_rate ?inst1 = Some ?b1" by simp
  have rest: "\<forall>(t, r) \<in> set trs. \<lfloor>t / 60\<rfloor> = w" using Cons.prems(3) by simp
  have c1: "?c1 = (if win ?b1 = w then tokens ?b1 else 0)" by simp
  note ih = Cons.IH [OF a1 b1 rest c1]
  have seq: "write_seq E s (Some k) (tr # trs) =
               (fst (write_endpoint E now s (Some k) req) # fst (write_seq E ?s1 (Some k) trs),
                snd (write_seq E ?s1 (Some k) trs))"
    by (simp add: tr split: prod.splits)
  have p1: "\<forall>i < length (tr # trs).
              fst (write_seq E s (Some k) (tr # trs)) ! i = rate_limited \<longleftrightarrow> limit b \<le> c + int i"
  proof (intro allI impI)
    fix i assume i: "i < length (tr # trs)"
    show "fst (write_seq E s (Some k) (tr # trs)) ! i = rate_limited \<longleftrightarrow> limit b \<le> c + int i"
    proof (cases i)
      case 0
      then show ?thesis using r0 by (simp add: seq)
    next
      case (Suc j)
      with i have j: "j < length trs" by simp
      from ih j have "fst (write_seq E ?s1 (Some k) trs) ! j = rate_limited \<longleftrightarrow> limit ?b1 \<le> ?c1 + int j"
        by blast
      then show ?thesis using Suc by (auto simp: seq)
    qed
  qed
  have p2: "get_app_instance_from_key (snd (write_seq E s (Some k) (tr # trs))) (Some k) =
           Inr (aid, inst\<lparr>inst_rate :=
                  Some (b\<lparr>win := w,
                          tokens := (if limit b \<le> c then c
                                     else min (limit b) (c + int (length (tr # trs))))\<rparr>)\<rparr>)"
    using ih by (auto simp: seq)
  from p1 p2 show ?case by simp
qed

text \<open>
  C4. An instance with limit \<open>N\<close> whose bucket is fresh for the minute window \<open>w\<close>
  (no token used in \<open>w\<close>, or last used in another window, whatever its count then)
  sends any requests at clock readings inside \<open>w\<close>. The attempt with index \<open>i\<close> (from 0)
  is stopped by the rate gate exactly when \<open>N \<le> i\<close>: the first \<open>N\<close> attempts pass the
  gate, whatever the later stages do with them, and attempt \<open>N + 1\<close> is refused with
  status 429. The bucket then holds the window \<open>w\<close> and as many tokens as attempts
  passed the gate, so a refused attempt consumes none.
\<close>

theorem rate_gate_window:
  assumes "get_app_instance_from_key s (Some k) = Inr (aid, inst)"
    and "inst_rate inst = Some b"
    and "limit b = N"
    and "win b \<noteq> w \<or> tokens b = 0"
    and "\<forall>(t, r) \<in> set trs. \<lfloor>t / 60\<rfloor> = w"
  shows "(\<forall>i < length trs.
            fst (write_seq E s (Some k) trs) ! i = rate_limited \<longleftrightarrow> N \<le> int i)
       \<and> (trs \<noteq> [] \<longrightarrow>
            get_app_instance_from_key (snd (write_seq E s (Some k) trs)) (Some k) =
              Inr (aid, inst\<lparr>inst_rate :=
                     Some (b\<lparr>win := w, tokens := max 0 (min N (int (length trs)))\<rparr>)\<rparr>))"
proof -
  have c: "(0::int) = (if win b = w then tokens b else 0)"
    using assms(4) by auto
  from write_seq_rate [OF assms(1,2,5) c, of E] assms(3)
  show ?thesis
    by (auto simp: max_def min_def)
qed

text \<open>
  Limit 2 and three attempts in one minute, the second of which the range guard
  rejects: the third is the one the rate gate refuses, and two tokens are used.
\<close>

theorem rate_gate_window_witness:
  "fst (write_seq demo_env demo_state (Some ''key_a'') demo_attempts) ! 0 \<noteq> rate_limited
   \<and> fst (write_seq demo_env demo_state (Some ''key_a'') demo_attempts) ! 1 \<noteq> rate_limited
   \<and> fst (write_seq demo_env demo_state (Some ''key_a'') demo_attempts) ! 2 = rate_limited
   \<and> get_app_instance_from_key
        (snd (write_seq demo_env demo_state (Some ''key_a'') demo_attempts)) (Some ''key_a'')
      = Inr (''a'', demo_instance\<lparr>inst_rate := Some \<lparr>limit = 2, tokens = 2, win = 0\<rparr>\<rparr>)"
proof -
  have b: "inst_rate demo_instance = Some \<lparr>limit = 2, tokens = 0, win = 0\<rparr>"
    by (simp add: demo_instance_def)
  have l: "limit \<lparr>limit = 2, tokens = 0, win = 0\<rparr> = 2" by simp
  have f: "win \<lparr>limit = 2, tokens = 0, win = 0\<rparr> \<noteq> 0 \<or> tokens \<lparr>limit = 2, tokens = 0, win = 0\<rparr> = 0"
    by simp
  have t: "\<forall>(t, r) \<in> set demo_attempts. \<lfloor>t / 60\<rfloor> = (0::int)"
    by (simp add: demo_attempts_def)
  have n: "length demo_attempts = 3" "demo_attempts \<noteq> []"
    by (simp_all add: demo_attempts_def)
  note r = rate_gate_window [OF demo_auth b l f t, of demo_env]
  from r have r0: "fst (write_seq demo_env demo_state (Some ''key_a'') demo_attempts) ! 0 = rate_limited
                     \<longleftrightarrow> (2::int) \<le> int 0"
    using n by simp
  from r have r1: "fst (write_seq demo_env demo_state (Some ''key_a'') demo_attempts) ! 1 = rate_limited
                     \<longleftrightarrow> (2::int) \<le> int 1"
    using n by simp
  from r have r2: "fst (write_seq demo_env demo_state (Some ''key_a'') demo_attempts) ! 2 = rate_limited
                     \<longleftrightarrow> (2::int) \<le> int 2"
    using n by simp
  from r n have r3: "get_app_instance_from_key
        (snd (write_seq demo_env demo_state (Some ''key_a'') demo_attempts)) (Some ''key_a'')
      = Inr (''a'', demo_instance\<lparr>inst_rate := Some \<lparr>limit = 2, tokens = 2, win = 0\<rparr>\<rparr>)"
    by simp
  from r0 r1 r2 r3 show ?thesis by simp
qed

subsection \<open>The previous value of a request\<close>

text \<open>
  C10. The \<open>prev_value\<close> field of a write request has no effect: two requests that
  differ only in that field give the same outcome and the same state (the value store,
  the time series and both logs). The previous value handed to the validators is the
  value stored for the label: for an admitted request, the first enforced validator
  that rejects at the stored value, after validators that accept at the stored value,
  decides the refusal and its reason; when all enforced validators accept at the stored
  value and the shadow evaluations at the stored value return, the write succeeds and
  the shadow rows added are those of the shadow validators that reject at the stored
  value, each with its reason.
\<close>

theorem validators_get_stored_value:
  "write_endpoint E now s key (req\<lparr>prev_value := p\<rparr>) = write_endpoint E now s key req
   \<and> (get_app_instance_from_key s key = Inr (aid, inst0)
        \<and> token_bucket_ok now inst0 = (True, inst)
        \<and> LABEL2IRI s (point_label req) = Some iri \<and> iri \<noteq> []
        \<and> iri \<in> set (cap_write (inst_caps inst))
        \<and> cls = (case class_of_iri E iri of None \<Rightarrow> [] | Some c \<Rightarrow> c)
      \<longrightarrow>
        (get_validators_for_class s cls = pre @ u # post
           \<and> (\<forall>x \<in> set pre. \<exists>g r. VALIDATOR_FUNS x = Some g
                  \<and> g E s cls (point_label req) (req_value req) (STATE s (point_label req))
                      = Inr (True, r))
           \<and> VALIDATOR_FUNS u = Some f
           \<and> f E s cls (point_label req) (req_value req) (STATE s (point_label req))
               = Inr (False, reason)
         \<longrightarrow> fst (write_endpoint E now s key req)
               = Inl (HTTPException 400 (''Guard blocked: '' @ reason)))
        \<and> (get_validators_for_class s cls \<noteq> []
           \<and> (\<forall>x \<in> set (get_validators_for_class s cls). \<exists>g r. VALIDATOR_FUNS x = Some g
                  \<and> g E s cls (point_label req) (req_value req) (STATE s (point_label req))
                      = Inr (True, r))
           \<and> (\<forall>x \<in> set (get_shadow_validators_for_class s cls). \<exists>g ok r. VALIDATOR_FUNS x = Some g
                  \<and> g E s cls (point_label req) (req_value req) (STATE s (point_label req))
                      = Inr (ok, r))
         \<longrightarrow> (\<exists>logged.
                fst (write_endpoint E now s key req)
                  = Inr (WriteOk (point_label req) (req_value req))
                \<and> shadowlog (snd (write_endpoint E now s key req)) = shadowlog s @ logged
                \<and> map sh_vtype logged =
                    filter (rejects E s cls (point_label req) (req_value req)
                              (STATE s (point_label req)))
                      (get_shadow_validators_for_class s cls)
                \<and> (\<forall>row \<in> set logged. \<exists>g. VALIDATOR_FUNS (sh_vtype row) = Some g
                      \<and> g E s cls (point_label req) (req_value req) (STATE s (point_label req))
                          = Inr (False, sh_reason row)))))"
proof (intro conjI impI)
  show "write_endpoint E now s key (req\<lparr>prev_value := p\<rparr>) = write_endpoint E now s key req"
    by (simp add: write_endpoint_def Let_def split: sum.split prod.split)
next
  assume adm: "get_app_instance_from_key s key = Inr (aid, inst0)
        \<and> token_bucket_ok now inst0 = (True, inst)
        \<and> LABEL2IRI s (point_label req) = Some iri \<and> iri \<noteq> []
        \<and> iri \<in> set (cap_write (inst_caps inst))
        \<and> cls = (case class_of_iri E iri of None \<Rightarrow> [] | Some c \<Rightarrow> c)"
  assume ch: "get_validators_for_class s cls = pre @ u # post
           \<and> (\<forall>x \<in> set pre. \<exists>g r. VALIDATOR_FUNS x = Some g
                  \<and> g E s cls (point_label req) (req_value req) (STATE s (point_label req))
                      = Inr (True, r))
           \<and> VALIDATOR_FUNS u = Some f
           \<and> f E s cls (point_label req) (req_value req) (STATE s (point_label req))
               = Inr (False, reason)"
  from ch have p1: "\<forall>x \<in> set pre. \<exists>g r. VALIDATOR_FUNS x = Some g
                  \<and> g E s cls (point_label req) (req_value req) (STATE s (point_label req))
                      = Inr (True, r)"
    and p2: "VALIDATOR_FUNS u = Some f"
    and p3: "f E s cls (point_label req) (req_value req) (STATE s (point_label req))
               = Inr (False, reason)"
    by blast+
  have "run_enforced E s cls (point_label req) (req_value req) (STATE s (point_label req))
          (pre @ u # post) = Inr (Some reason)"
    using p1 p2 p3 by (rule run_enforced_first_reject)
  with ch have en: "run_enforced E s cls (point_label req) (req_value req)
                      (proxy_read s (point_label req)) (get_validators_for_class s cls)
                    = Inr (Some reason)"
    by (simp add: proxy_read_def)
  from ch have ne: "get_validators_for_class s cls \<noteq> []" by simp
  from adm have a: "get_app_instance_from_key s key = Inr (aid, inst0)"
    and g: "token_bucket_ok now inst0 = (True, inst)"
    and i: "LABEL2IRI s (point_label req) = Some iri" and n: "iri \<noteq> []"
    and c: "iri \<in> set (cap_write (inst_caps inst))"
    and k: "cls = (case class_of_iri E iri of None \<Rightarrow> [] | Some c \<Rightarrow> c)"
    by simp_all
  from write_enforced_stage [OF a g i n c k ne en]
  show "fst (write_endpoint E now s key req) = Inl (HTTPException 400 (''Guard blocked: '' @ reason))"
    by simp
next
  assume adm: "get_app_instance_from_key s key = Inr (aid, inst0)
        \<and> token_bucket_ok now inst0 = (True, inst)
        \<and> LABEL2IRI s (point_label req) = Some iri \<and> iri \<noteq> []
        \<and> iri \<in> set (cap_write (inst_caps inst))
        \<and> cls = (case class_of_iri E iri of None \<Rightarrow> [] | Some c \<Rightarrow> c)"
  assume ok: "get_validators_for_class s cls \<noteq> []
           \<and> (\<forall>x \<in> set (get_validators_for_class s cls). \<exists>g r. VALIDATOR_FUNS x = Some g
                  \<and> g E s cls (point_label req) (req_value req) (STATE s (point_label req))
                      = Inr (True, r))
           \<and> (\<forall>x \<in> set (get_shadow_validators_for_class s cls). \<exists>g ok r. VALIDATOR_FUNS x = Some g
                  \<and> g E s cls (point_label req) (req_value req) (STATE s (point_label req))
                      = Inr (ok, r))"
  from adm have a: "get_app_instance_from_key s key = Inr (aid, inst0)"
    and g: "token_bucket_ok now inst0 = (True, inst)"
    and i: "LABEL2IRI s (point_label req) = Some iri" and n: "iri \<noteq> []"
    and c: "iri \<in> set (cap_write (inst_caps inst))"
    and k: "cls = (case class_of_iri E iri of None \<Rightarrow> [] | Some c \<Rightarrow> c)"
    by simp_all
  from ok have ne: "get_validators_for_class s cls \<noteq> []" by simp
  from ok have q: "\<forall>x \<in> set (get_validators_for_class s cls). \<exists>g r. VALIDATOR_FUNS x = Some g
                  \<and> g E s cls (point_label req) (req_value req) (STATE s (point_label req))
                      = Inr (True, r)"
    by blast
  have "run_enforced E s cls (point_label req) (req_value req) (STATE s (point_label req))
          (get_validators_for_class s cls) = Inr None"
    using q by (rule run_enforced_all_accept)
  then have en: "run_enforced E s cls (point_label req) (req_value req)
                   (proxy_read s (point_label req)) (get_validators_for_class s cls) = Inr None"
    by (simp add: proxy_read_def)
  from ok have rt: "\<forall>x \<in> set (get_shadow_validators_for_class s cls). \<exists>g ok r. VALIDATOR_FUNS x = Some g
                  \<and> g E s cls (point_label req) (req_value req) (STATE s (point_label req))
                      = Inr (ok, r)"
    by simp
  from run_shadow_returns [OF rt]
  obtain logged where
    l: "run_shadow E s now aid (inst_user inst) iri cls (point_label req) (req_value req)
          (STATE s (point_label req)) (get_shadow_validators_for_class s cls) = (None, logged)"
       "map sh_vtype logged =
          filter (rejects E s cls (point_label req) (req_value req) (STATE s (point_label req)))
            (get_shadow_validators_for_class s cls)"
       "\<forall>row \<in> set logged.
           \<exists>f. VALIDATOR_FUNS (sh_vtype row) = Some f
             \<and> f E s cls (point_label req) (req_value req) (STATE s (point_label req))
                 = Inr (False, sh_reason row)
             \<and> row = log_shadow now aid (inst_user inst) iri (point_label req) (req_value req)
                       cls (sh_vtype row) (sh_reason row)"
    by blast
  from l(1) have sh: "run_shadow E s now aid (inst_user inst) iri cls (point_label req) (req_value req)
          (proxy_read s (point_label req)) (get_shadow_validators_for_class s cls) = (None, logged)"
    by (simp add: proxy_read_def)
  from write_commit_stage [OF a g i n c k ne en sh]
  have "fst (write_endpoint E now s key req) = Inr (WriteOk (point_label req) (req_value req))
        \<and> shadowlog (snd (write_endpoint E now s key req)) = shadowlog s @ logged"
    by simp
  with l(2,3)
  show "\<exists>logged.
          fst (write_endpoint E now s key req)
            = Inr (WriteOk (point_label req) (req_value req))
          \<and> shadowlog (snd (write_endpoint E now s key req)) = shadowlog s @ logged
          \<and> map sh_vtype logged =
              filter (rejects E s cls (point_label req) (req_value req)
                        (STATE s (point_label req)))
                (get_shadow_validators_for_class s cls)
          \<and> (\<forall>row \<in> set logged. \<exists>g. VALIDATOR_FUNS (sh_vtype row) = Some g
                \<and> g E s cls (point_label req) (req_value req) (STATE s (point_label req))
                    = Inr (False, sh_reason row))"
    by blast
qed

text \<open>
  A caller that claims a previous value of 24 while 22 is stored, and asks for 25 with
  a step limit of 2: the enforced rate validator refuses the step from 22, and as a
  shadow validator it reports it; at the claimed 24 it would have accepted.
\<close>

theorem validators_get_stored_value_witness:
  "prev_value (demo_req 25) = Some (Finite 24)
   \<and> v_rate demo_env chain_state demo_cls ''F1_ZoneA_Cool_SP'' (Finite 25) (Some (Finite 24))
       = Inr (True, ''ok'')
   \<and> v_rate demo_env chain_state demo_cls ''F1_ZoneA_Cool_SP'' (Finite 25)
        (STATE chain_state ''F1_ZoneA_Cool_SP'') = Inr (False, ''step>n'')
   \<and> fst (write_endpoint demo_env 0 chain_state (Some ''key_a'') (demo_req 25))
       = Inl (HTTPException 400 ''Guard blocked: step>n'')
   \<and> write_endpoint demo_env 0 chain_state (Some ''key_a'') ((demo_req 25)\<lparr>prev_value := None\<rparr>)
       = write_endpoint demo_env 0 chain_state (Some ''key_a'') (demo_req 25)
   \<and> fst (write_endpoint demo_env 0 shadow_state (Some ''key_a'') (demo_req 25))
       = Inr (WriteOk ''F1_ZoneA_Cool_SP'' (Finite 25))
   \<and> map sh_vtype (shadowlog (snd (write_endpoint demo_env 0 shadow_state (Some ''key_a'') (demo_req 25))))
       = [''comfort_band'', ''rate'']"
proof -
  have e4: "point_label (demo_req 25) = ''F1_ZoneA_Cool_SP''" "req_value (demo_req 25) = Finite 25"
    "prev_value (demo_req 25) = Some (Finite 24)"
    by (simp_all add: demo_req_def)
  have n: "''urn:p1'' \<noteq> []" by simp
  have a: "get_app_instance_from_key chain_state (Some ''key_a'') = Inr (''a'', demo_instance)"
    by (simp add: get_app_instance_from_key_def chain_state_def demo_state_def)
  have i: "LABEL2IRI chain_state (point_label (demo_req 25)) = Some ''urn:p1''"
    by (simp add: chain_state_def demo_state_def demo_req_def)
  have c: "get_validators_for_class chain_state demo_cls = [''range''] @ ''rate'' # []"
    by (simp add: get_validators_for_class_def select_vtypes_def local_demo_cls
          chain_state_def demo_state_def)
  have st: "STATE chain_state ''F1_ZoneA_Cool_SP'' = Some (Finite 22)"
    by (simp add: chain_state_def demo_state_def)
  have rv: "v_range demo_env chain_state demo_cls ''F1_ZoneA_Cool_SP'' (Finite 25) (Some (Finite 22))
              = Inr (True, ''ok'')"
    by (simp add: v_range_def g_item_def local_demo_cls chain_state_def demo_state_def)
  have rt: "v_rate demo_env chain_state demo_cls ''F1_ZoneA_Cool_SP'' (Finite 25) (Some (Finite 22))
              = Inr (False, ''step>n'')"
    by (simp add: v_rate_def g_item_def fl_small local_demo_cls chain_state_def demo_state_def
          demo_env_def)
  have rt24: "v_rate demo_env chain_state demo_cls ''F1_ZoneA_Cool_SP'' (Finite 25) (Some (Finite 24))
              = Inr (True, ''ok'')"
    by (simp add: v_rate_def g_item_def fl_small local_demo_cls chain_state_def demo_state_def)
  have pre: "\<forall>x \<in> set [''range'']. \<exists>g r. VALIDATOR_FUNS x = Some g
               \<and> g demo_env chain_state demo_cls (point_label (demo_req 25)) (req_value (demo_req 25))
                     (STATE chain_state (point_label (demo_req 25))) = Inr (True, r)"
    by (simp add: e4 st VALIDATOR_FUNS_def rv)
  have f: "VALIDATOR_FUNS ''rate'' = Some v_rate"
    by (simp add: VALIDATOR_FUNS_def)
  have rj: "v_rate demo_env chain_state demo_cls (point_label (demo_req 25)) (req_value (demo_req 25))
              (STATE chain_state (point_label (demo_req 25))) = Inr (False, ''step>n'')"
    by (simp add: e4 st rt)
  note t1 = validators_get_stored_value
    [where E = demo_env and now = 0 and s = chain_state and key = "Some ''key_a''"
       and req = "demo_req 25" and p = None and aid = "''a''" and ?inst0.0 = demo_instance
       and inst = demo_instance_1 and iri = "''urn:p1''" and cls = demo_cls
       and pre = "[''range'']" and u = "''rate''" and post = "[]" and f = v_rate
       and reason = "''step>n''"]
  from t1 a demo_gate i n demo_cap demo_class c pre f rj
  have w1: "fst (write_endpoint demo_env 0 chain_state (Some ''key_a'') (demo_req 25))
              = Inl (HTTPException 400 ''Guard blocked: step>n'')"
    by simp
  from t1
  have w2: "write_endpoint demo_env 0 chain_state (Some ''key_a'') ((demo_req 25)\<lparr>prev_value := None\<rparr>)
              = write_endpoint demo_env 0 chain_state (Some ''key_a'') (demo_req 25)"
    by blast
  have a': "get_app_instance_from_key shadow_state (Some ''key_a'') = Inr (''a'', demo_instance)"
    by (simp add: get_app_instance_from_key_def shadow_state_def demo_state_def)
  have i': "LABEL2IRI shadow_state (point_label (demo_req 25)) = Some ''urn:p1''"
    by (simp add: shadow_state_def demo_state_def demo_req_def)
  have c': "get_validators_for_class shadow_state demo_cls = [''range'']"
    by (simp add: get_validators_for_class_def select_vtypes_def local_demo_cls
          shadow_state_def demo_state_def)
  have sv: "get_shadow_validators_for_class shadow_state demo_cls = [''comfort_band'', ''range'', ''rate'']"
    by (simp add: get_shadow_validators_for_class_def select_vtypes_def local_demo_cls
          shadow_state_def demo_state_def)
  have st': "STATE shadow_state ''F1_ZoneA_Cool_SP'' = Some (Finite 22)"
    by (simp add: shadow_state_def demo_state_def)
  have sl: "shadowlog shadow_state = []"
    by (simp add: shadow_state_def demo_state_def)
  have rv': "v_range demo_env shadow_state demo_cls ''F1_ZoneA_Cool_SP'' (Finite 25) (Some (Finite 22))
               = Inr (True, ''ok'')"
    by (simp add: v_range_def g_item_def local_demo_cls shadow_state_def demo_state_def)
  have rt': "v_rate demo_env shadow_state demo_cls ''F1_ZoneA_Cool_SP'' (Finite 25) (Some (Finite 22))
               = Inr (False, ''step>n'')"
    by (simp add: v_rate_def g_item_def fl_small local_demo_cls shadow_state_def demo_state_def
          demo_env_def)
  have cb': "v_comfort_band demo_env shadow_state demo_cls ''F1_ZoneA_Cool_SP'' (Finite 25)
               (Some (Finite 22)) = Inr (False, ''comfort_band n'' @ en_dash @ ''n'')"
    by (simp add: v_comfort_band_def c_get_def shadow_state_def demo_state_def demo_env_def)
  have ne: "get_validators_for_class shadow_state demo_cls \<noteq> []"
    using c' by simp
  have acc: "\<forall>x \<in> set (get_validators_for_class shadow_state demo_cls). \<exists>g r. VALIDATOR_FUNS x = Some g
               \<and> g demo_env shadow_state demo_cls (point_label (demo_req 25)) (req_value (demo_req 25))
                     (STATE shadow_state (point_label (demo_req 25))) = Inr (True, r)"
    by (simp add: c' e4 st' VALIDATOR_FUNS_def rv')
  have ret: "\<forall>x \<in> set (get_shadow_validators_for_class shadow_state demo_cls).
               \<exists>g ok r. VALIDATOR_FUNS x = Some g
               \<and> g demo_env shadow_state demo_cls (point_label (demo_req 25)) (req_value (demo_req 25))
                     (STATE shadow_state (point_label (demo_req 25))) = Inr (ok, r)"
    by (auto simp: sv e4 st' VALIDATOR_FUNS_def rv' rt' cb')
  have fj: "filter (rejects demo_env shadow_state demo_cls ''F1_ZoneA_Cool_SP'' (Finite 25)
                      (Some (Finite 22)))
              [''comfort_band'', ''range'', ''rate''] = [''comfort_band'', ''rate'']"
    by (simp add: rejects_def VALIDATOR_FUNS_def rv' rt' cb')
  note t2 = validators_get_stored_value
    [where E = demo_env and now = 0 and s = shadow_state and key = "Some ''key_a''"
       and req = "demo_req 25" and aid = "''a''" and ?inst0.0 = demo_instance
       and inst = demo_instance_1 and iri = "''urn:p1''" and cls = demo_cls]
  from t2 a' demo_gate i' n demo_cap demo_class ne acc ret
  obtain logged where
    l: "fst (write_endpoint demo_env 0 shadow_state (Some ''key_a'') (demo_req 25))
          = Inr (WriteOk (point_label (demo_req 25)) (req_value (demo_req 25)))"
       "shadowlog (snd (write_endpoint demo_env 0 shadow_state (Some ''key_a'') (demo_req 25)))
          = shadowlog shadow_state @ logged"
       "map sh_vtype logged =
          filter (rejects demo_env shadow_state demo_cls (point_label (demo_req 25))
                    (req_value (demo_req 25)) (STATE shadow_state (point_label (demo_req 25))))
            (get_shadow_validators_for_class shadow_state demo_cls)"
    by blast
  from l(3) have m: "map sh_vtype logged = [''comfort_band'', ''rate'']"
    by (simp only: e4 st' sv fj)
  from e4 rt24 rt st w1 w2 l(1,2) m sl show ?thesis
    by simp
qed

end
